theory Spec2Isabelle
  imports Complex_Main "HOL-Library.List_Lexorder" "HOL-Library.Char_ord" "HOL-Library.Multiset"
    "HOL-Library.Log_Nat"
begin

section \<open>JavaScript numbers\<close>

text \<open>
  A JavaScript number is an IEEE-754 double: here the rational that the double holds, or
  one of the three special values. An arithmetic operation returns the double nearest to
  the exact result, a tie going to the even mantissa (\<open>fl\<close>). The range of the exponent
  is not bounded: overflow and subnormal numbers, far from the magnitudes of this program,
  are not modelled. Counters and durations are integers below \<open>2^53\<close>, which doubles hold
  exactly. Division by zero, which JavaScript does not raise, yields an infinity or NaN as
  it does in the language; every divisor of this program is a counter, so the zero that
  divides is the positive one.
\<close>

text \<open>The exponent of a positive rational: the \<open>e\<close> with \<open>2^e \<le> x < 2^(e+1)\<close>.\<close>

definition ilog2 :: "rat \<Rightarrow> int" where
  "ilog2 x =
     (let (p, q) = quotient_of x;
          k = bitlen p - bitlen q
      in if 2 powi k \<le> x then k else k - 1)"

definition round_half_even :: "rat \<Rightarrow> int" where
  "round_half_even z =
     (let f = \<lfloor>z\<rfloor>; r = z - of_int f
      in if r < 1 / 2 then f else if 1 / 2 < r then f + 1 else if even f then f else f + 1)"

text \<open>Rounding to a mantissa of 53 bits.\<close>

definition round53 :: "rat \<Rightarrow> rat" where
  "round53 x =
     (if x = 0 then 0
      else (let q = 2 powi (ilog2 \<bar>x\<bar> - 52)
            in sgn x * of_int (round_half_even (\<bar>x\<bar> / q)) * q))"

text \<open>The result of an arithmetic operation: the exact value, brought to lowest terms
  and rounded.\<close>

definition fl :: "rat \<Rightarrow> rat" where
  "fl x = (let (p, q) = quotient_of x in round53 (of_int p / of_int q))"

text \<open>The unit roundoff, \<open>2^-53\<close>: the greatest relative error of a rounding.\<close>

definition ulp_half :: rat where
  "ulp_half = 1 / 2 ^ 53"

datatype jsnum = Num rat | PosInf | NegInf | NaN

definition js_inf :: "rat \<Rightarrow> jsnum" where
  "js_inf s = (if 0 < s then PosInf else if s < 0 then NegInf else NaN)"

fun js_sgn :: "jsnum \<Rightarrow> rat" where
  "js_sgn (Num a) = sgn a"
| "js_sgn PosInf = 1"
| "js_sgn NegInf = - 1"
| "js_sgn NaN = 0"

fun js_mul :: "jsnum \<Rightarrow> jsnum \<Rightarrow> jsnum" where
  "js_mul NaN y = NaN"
| "js_mul x NaN = NaN"
| "js_mul (Num a) (Num b) = Num (fl (a * b))"
| "js_mul x y = js_inf (js_sgn x * js_sgn y)"

fun js_add :: "jsnum \<Rightarrow> jsnum \<Rightarrow> jsnum" where
  "js_add NaN y = NaN"
| "js_add x NaN = NaN"
| "js_add (Num a) (Num b) = Num (fl (a + b))"
| "js_add PosInf NegInf = NaN"
| "js_add NegInf PosInf = NaN"
| "js_add PosInf y = PosInf"
| "js_add x PosInf = PosInf"
| "js_add NegInf y = NegInf"
| "js_add x NegInf = NegInf"

fun js_div :: "jsnum \<Rightarrow> jsnum \<Rightarrow> jsnum" where
  "js_div NaN y = NaN"
| "js_div x NaN = NaN"
| "js_div (Num a) (Num b) = (if b = 0 then js_inf a else Num (fl (a / b)))"
| "js_div (Num a) y = Num 0"
| "js_div PosInf (Num b) = (if b < 0 then NegInf else PosInf)"
| "js_div NegInf (Num b) = (if b < 0 then PosInf else NegInf)"
| "js_div x y = NaN"

text \<open>\<open>x > y\<close>: false as soon as one side is NaN.\<close>

fun js_gt :: "jsnum \<Rightarrow> jsnum \<Rightarrow> bool" where
  "js_gt NaN y = False"
| "js_gt x NaN = False"
| "js_gt (Num a) (Num b) = (b < a)"
| "js_gt PosInf y = (y \<noteq> PosInf)"
| "js_gt x NegInf = (x \<noteq> NegInf)"
| "js_gt x y = False"

definition js_lt :: "jsnum \<Rightarrow> jsnum \<Rightarrow> bool" where
  "js_lt x y = js_gt y x"

fun isNaN :: "jsnum \<Rightarrow> bool" where
  "isNaN NaN = True"
| "isNaN x = False"

text \<open>\<open>Math.round\<close>: the nearest integer, halves rounded up; special values unchanged. The
  result is exact.\<close>

fun Math_round :: "jsnum \<Rightarrow> jsnum" where
  "Math_round (Num a) = Num (of_int \<lfloor>a + 1 / 2\<rfloor>)"
| "Math_round x = x"

section \<open>The metrics aggregator (middleware/monitoring)\<close>

subsection \<open>State\<close>

record requests_metrics =
  req_total :: nat
  byMethod :: "string \<rightharpoonup> nat"
  byStatus :: "nat \<rightharpoonup> nat"
  byEndpoint :: "string \<rightharpoonup> nat"

record performance_metrics =
  averageResponseTime :: jsnum
  slowRequests :: nat
  fastRequests :: nat

text \<open>An entry of \<open>errors.last24h\<close>; the timestamp is in milliseconds since the epoch.\<close>

record error_entry =
  timestamp :: int
  err_type :: string
  message :: string
  url :: string
  entry_method :: string
  ip :: string

record errors_metrics =
  err_total :: nat
  byType :: "string \<rightharpoonup> nat"
  last24h :: "error_entry list"

record database_metrics =
  queries :: nat
  averageQueryTime :: jsnum
  slowQueries :: nat

record security_metrics =
  suspiciousRequests :: nat
  blockedIPs :: "string set"
  rateLimitHits :: nat

text \<open>The module-level object \<open>metrics\<close>, by value: one field for each of its five sections.\<close>

record metrics =
  requests :: requests_metrics
  performance :: performance_metrics
  errors :: errors_metrics
  database :: database_metrics
  security :: security_metrics

definition initial_requests :: requests_metrics where
  "initial_requests =
     \<lparr>req_total = 0, byMethod = Map.empty, byStatus = Map.empty, byEndpoint = Map.empty\<rparr>"

definition initial_performance :: performance_metrics where
  "initial_performance = \<lparr>averageResponseTime = Num 0, slowRequests = 0, fastRequests = 0\<rparr>"

definition initial_errors :: errors_metrics where
  "initial_errors = \<lparr>err_total = 0, byType = Map.empty, last24h = []\<rparr>"

definition initial_database :: database_metrics where
  "initial_database = \<lparr>queries = 0, averageQueryTime = Num 0, slowQueries = 0\<rparr>"

definition initial_security :: security_metrics where
  "initial_security = \<lparr>suspiciousRequests = 0, blockedIPs = {}, rateLimitHits = 0\<rparr>"

definition initial_metrics :: metrics where
  "initial_metrics =
     \<lparr>requests = initial_requests, performance = initial_performance,
      errors = initial_errors, database = initial_database, security = initial_security\<rparr>"

text \<open>\<open>resetMetrics\<close> assigns a fresh section of initial values to every field.\<close>

definition resetMetrics :: "metrics \<Rightarrow> metrics" where
  "resetMetrics m = initial_metrics"

subsection \<open>Requests\<close>

text \<open>What the middleware reads of a request: \<open>route_path\<close> is \<open>req.route.path\<close> when a
  route has been matched.\<close>

record request =
  req_method :: string
  req_route_path :: "string option"
  req_path :: string
  req_url :: string
  req_ip :: string

text \<open>\<open>(counter[k] || 0) + 1\<close>: an absent key and a zero count both restart at one.\<close>

definition incr :: "('k \<rightharpoonup> nat) \<Rightarrow> 'k \<Rightarrow> ('k \<rightharpoonup> nat)" where
  "incr c k = c(k \<mapsto> (case c k of None \<Rightarrow> 0 | Some n \<Rightarrow> n) + 1)"

text \<open>\<open>updatePerformanceMetrics\<close>: the running average is recomputed from the request
  counter as it stands at that moment; the subtraction \<open>totalRequests - 1\<close> is on
  JavaScript numbers, so it is \<open>-1\<close> for a counter at zero.\<close>

definition updatePerformanceMetrics :: "metrics \<Rightarrow> int \<Rightarrow> metrics" where
  "updatePerformanceMetrics m responseTime =
     (let currentAvg = averageResponseTime (performance m);
          totalRequests = req_total (requests m);
          avg = js_div (js_add (js_mul currentAvg (Num (of_nat totalRequests - 1)))
                               (Num (of_int responseTime)))
                       (Num (of_nat totalRequests));
          p = (performance m)\<lparr>averageResponseTime := avg\<rparr>
      in m\<lparr>performance :=
             (if 1000 < responseTime then p\<lparr>slowRequests := slowRequests p + 1\<rparr>
              else p\<lparr>fastRequests := fastRequests p + 1\<rparr>)\<rparr>)"

text \<open>\<open>metricsCollector\<close> in its two halves: the body that runs when the request comes in,
  and the handler of the response's \<open>finish\<close> event, which receives the status code and the
  elapsed time \<open>Date.now() - startTime\<close>. The log entry for a slow request leaves the
  metrics alone and is not modelled.\<close>

definition metricsCollector_start :: "metrics \<Rightarrow> request \<Rightarrow> metrics" where
  "metricsCollector_start m req =
     (let r = requests m;
          endpoint = (case req_route_path req of Some p \<Rightarrow> p | None \<Rightarrow> req_path req)
      in m\<lparr>requests := r\<lparr>req_total := req_total r + 1,
                            byMethod := incr (byMethod r) (req_method req),
                            byEndpoint := incr (byEndpoint r) endpoint\<rparr>\<rparr>)"

definition metricsCollector_finish :: "metrics \<Rightarrow> nat \<Rightarrow> int \<Rightarrow> metrics" where
  "metricsCollector_finish m statusCode responseTime =
     (let r = requests m;
          m1 = m\<lparr>requests := r\<lparr>byStatus := incr (byStatus r) statusCode\<rparr>\<rparr>
      in updatePerformanceMetrics m1 responseTime)"

text \<open>A request handled from start to finish with no other request in between, and a
  sequence of such requests.\<close>

record served =
  served_req :: request
  served_status :: nat
  served_ms :: int

definition serve :: "metrics \<Rightarrow> served \<Rightarrow> metrics" where
  "serve m s =
     metricsCollector_finish (metricsCollector_start m (served_req s))
       (served_status s) (served_ms s)"

definition serve_all :: "metrics \<Rightarrow> served list \<Rightarrow> metrics" where
  "serve_all m ss = foldl serve m ss"

text \<open>The arithmetic mean of the durations, as the specification words it.\<close>

definition mean_ms :: "served list \<Rightarrow> rat" where
  "mean_ms ss = of_int (sum_list (map served_ms ss)) / of_nat (length ss)"

subsection \<open>Errors\<close>

text \<open>What \<open>errorMetrics\<close> reads of the error it is given: \<open>error.name\<close>, which may be
  missing, and \<open>error.message\<close>.\<close>

record js_error =
  error_name :: "string option"
  error_message :: string

definition day_ms :: int where
  "day_ms = 24 * 60 * 60 * 1000"

text \<open>\<open>errorMetrics\<close> reads the clock twice: \<open>new Date()\<close> for the timestamp of the entry,
  then \<open>Date.now()\<close> for the pruning bound. Both readings are arguments here.\<close>

definition errorMetrics :: "metrics \<Rightarrow> js_error \<Rightarrow> request \<Rightarrow> int \<Rightarrow> int \<Rightarrow> metrics" where
  "errorMetrics m error req now_entry now_prune =
     (let e = errors m;
          errorType = (case error_name error of
                         None \<Rightarrow> ''UnknownError''
                       | Some n \<Rightarrow> if n = [] then ''UnknownError'' else n);
          errorEntry = \<lparr>timestamp = now_entry, err_type = errorType,
                        message = error_message error, url = req_url req,
                        entry_method = req_method req, ip = req_ip req\<rparr>;
          pushed = last24h e @ [errorEntry];
          oneDayAgo = now_prune - day_ms
      in m\<lparr>errors := e\<lparr>err_total := err_total e + 1,
                          byType := incr (byType e) errorType,
                          last24h := filter (\<lambda>err. oneDayAgo < timestamp err) pushed\<rparr>\<rparr>)"

subsection \<open>Database operations\<close>

definition recordDatabaseOperation :: "metrics \<Rightarrow> int \<Rightarrow> metrics" where
  "recordDatabaseOperation m duration =
     (let d = database m;
          totalQueries = queries d + 1;
          currentAvg = averageQueryTime d;
          avg = js_div (js_add (js_mul currentAvg (Num (of_nat totalQueries - 1)))
                               (Num (of_int duration)))
                       (Num (of_nat totalQueries))
      in m\<lparr>database := d\<lparr>queries := totalQueries, averageQueryTime := avg,
                            slowQueries := (if 500 < duration then slowQueries d + 1
                                            else slowQueries d)\<rparr>\<rparr>)"

subsection \<open>Health verdict\<close>

text \<open>What \<open>getHealthStatus\<close> and \<open>getMetrics\<close> read of the process: the clock, the uptime,
  two environment variables, \<open>process.memoryUsage()\<close> and \<open>process.cpuUsage()\<close>.\<close>

record memory_usage =
  heapTotal :: nat
  heapUsed :: nat

record process_env =
  now_iso :: string
  uptime :: rat
  npm_package_version :: "string option"
  NODE_ENV :: "string option"
  memoryUsage :: memory_usage
  cpuUsage :: "nat \<times> nat"

text \<open>\<open>v || d\<close> on an environment variable: unset and empty are both falsy.\<close>

definition or_default :: "string option \<Rightarrow> string \<Rightarrow> string" where
  "or_default v d = (case v of None \<Rightarrow> d | Some s \<Rightarrow> if s = [] then d else s)"

record health_figures =
  fig_requests :: nat
  fig_averageResponseTime :: jsnum
  fig_errorRate :: jsnum
  fig_memoryUsage :: jsnum
  fig_databaseQueries :: nat

text \<open>The report: \<open>issues\<close> is a property the object only has after a warning.\<close>

record health =
  status :: string
  health_timestamp :: string
  health_uptime :: rat
  version :: string
  environment :: string
  issues :: "string list option"
  figures :: health_figures

definition push_if :: "bool \<Rightarrow> string \<Rightarrow> string list \<Rightarrow> string list" where
  "push_if c x xs = (if c then xs @ [x] else xs)"

text \<open>The literals \<open>0.05\<close> and \<open>0.9\<close> of the source are the doubles nearest to them.\<close>

definition getHealthStatus :: "process_env \<Rightarrow> metrics \<Rightarrow> health" where
  "getHealthStatus env m =
     (let criticalIssues0 = [];
          criticalIssues1 =
            push_if (js_gt (averageResponseTime (performance m)) (Num 2000))
              ''High average response time'' criticalIssues0;
          errorRate = js_div (Num (of_nat (err_total (errors m))))
                             (Num (of_nat (max (req_total (requests m)) 1)));
          criticalIssues2 =
            push_if (js_gt errorRate (Num (fl (5 / 100)))) ''High error rate'' criticalIssues1;
          memUsage = memoryUsage env;
          memUsagePercent = js_div (Num (of_nat (heapUsed memUsage)))
                                   (Num (of_nat (heapTotal memUsage)));
          criticalIssues =
            push_if (js_gt memUsagePercent (Num (fl (9 / 10)))) ''High memory usage''
              criticalIssues2
      in \<lparr>status = (if 0 < length criticalIssues then ''WARNING'' else ''OK''),
          health_timestamp = now_iso env,
          health_uptime = uptime env,
          version = or_default (npm_package_version env) ''2.0.0'',
          environment = or_default (NODE_ENV env) ''development'',
          issues = (if 0 < length criticalIssues then Some criticalIssues else None),
          figures =
            \<lparr>fig_requests = req_total (requests m),
             fig_averageResponseTime = Math_round (averageResponseTime (performance m)),
             fig_errorRate = js_div (Math_round (js_mul errorRate (Num 100))) (Num 100),
             fig_memoryUsage = Math_round (js_mul memUsagePercent (Num 100)),
             fig_databaseQueries = queries (database m)\<rparr>\<rparr>)"

text \<open>The three threshold conditions, as the specification words them, in the arithmetic of
  the language.\<close>

definition response_time_high :: "metrics \<Rightarrow> bool" where
  "response_time_high m = js_gt (averageResponseTime (performance m)) (Num 2000)"

definition error_rate :: "metrics \<Rightarrow> jsnum" where
  "error_rate m =
     js_div (Num (of_nat (err_total (errors m)))) (Num (of_nat (max (req_total (requests m)) 1)))"

definition error_rate_high :: "metrics \<Rightarrow> bool" where
  "error_rate_high m = js_gt (error_rate m) (Num (fl (5 / 100)))"

definition heap_ratio :: "memory_usage \<Rightarrow> jsnum" where
  "heap_ratio u = js_div (Num (of_nat (heapUsed u))) (Num (of_nat (heapTotal u)))"

definition memory_high :: "memory_usage \<Rightarrow> bool" where
  "memory_high u = js_gt (heap_ratio u) (Num (fl (9 / 10)))"

definition triggered :: "process_env \<Rightarrow> metrics \<Rightarrow> string list" where
  "triggered env m =
     map fst (filter snd
       [(''High average response time'', response_time_high m),
        (''High error rate'', error_rate_high m),
        (''High memory usage'', memory_high (memoryUsage env))])"

subsection \<open>Snapshots and shared objects\<close>

text \<open>
  \<open>getMetrics\<close> returns \<open>{...metrics, timestamp, uptime, memory, cpu}\<close>: a new object that
  receives the values of the five properties of \<open>metrics\<close>. Those values are references to
  the section objects, so what a caller can do with the result depends on which objects
  are shared. The objects therefore live in a store, addressed by references; an object is
  either a section, with its counters, or an object with the five section properties (the
  \<open>metrics\<close> object itself, or a snapshot, which also has the four added properties).
  The collections inside a section (\<open>byMethod\<close>, \<open>last24h\<close>, ...) are kept inside the
  section's value: a write to one of them through a section is a write to that section.
\<close>

type_synonym ref = nat

datatype section_name = SRequests | SPerformance | SErrors | SDatabase | SSecurity

record snapshot_fields =
  snap_timestamp :: string
  snap_uptime :: rat
  snap_memory :: memory_usage
  snap_cpu :: "nat \<times> nat"

datatype obj =
    Top "section_name \<Rightarrow> ref" "snapshot_fields option"
  | Requests requests_metrics
  | Performance performance_metrics
  | Errors errors_metrics
  | Database database_metrics
  | Security security_metrics

record heap =
  cells :: "ref \<rightharpoonup> obj"
  fresh :: ref

text \<open>The constant binding \<open>const metrics\<close>.\<close>

definition metrics_at :: ref where
  "metrics_at = 0"

fun initial_sections :: "section_name \<Rightarrow> ref" where
  "initial_sections SRequests = 1"
| "initial_sections SPerformance = 2"
| "initial_sections SErrors = 3"
| "initial_sections SDatabase = 4"
| "initial_sections SSecurity = 5"

definition initial_heap :: heap where
  "initial_heap =
     \<lparr>cells = [0 \<mapsto> Top initial_sections None,
               1 \<mapsto> Requests initial_requests,
               2 \<mapsto> Performance initial_performance,
               3 \<mapsto> Errors initial_errors,
               4 \<mapsto> Database initial_database,
               5 \<mapsto> Security initial_security],
      fresh = 6\<rparr>"

fun as_requests :: "obj option \<Rightarrow> requests_metrics option" where
  "as_requests (Some (Requests a)) = Some a"
| "as_requests x = None"

fun as_performance :: "obj option \<Rightarrow> performance_metrics option" where
  "as_performance (Some (Performance a)) = Some a"
| "as_performance x = None"

fun as_errors :: "obj option \<Rightarrow> errors_metrics option" where
  "as_errors (Some (Errors a)) = Some a"
| "as_errors x = None"

fun as_database :: "obj option \<Rightarrow> database_metrics option" where
  "as_database (Some (Database a)) = Some a"
| "as_database x = None"

fun as_security :: "obj option \<Rightarrow> security_metrics option" where
  "as_security (Some (Security a)) = Some a"
| "as_security x = None"

fun as_top :: "obj option \<Rightarrow> (section_name \<Rightarrow> ref) option" where
  "as_top (Some (Top t x)) = Some t"
| "as_top y = None"

text \<open>The counters that an object with the five section properties shows: the values read
  by following its references.\<close>

definition view :: "heap \<Rightarrow> ref \<Rightarrow> metrics option" where
  "view h r =
     Option.bind (as_top (cells h r)) (\<lambda>t.
     Option.bind (as_requests (cells h (t SRequests))) (\<lambda>a.
     Option.bind (as_performance (cells h (t SPerformance))) (\<lambda>b.
     Option.bind (as_errors (cells h (t SErrors))) (\<lambda>c.
     Option.bind (as_database (cells h (t SDatabase))) (\<lambda>d.
     Option.bind (as_security (cells h (t SSecurity))) (\<lambda>e.
       Some \<lparr>requests = a, performance = b, errors = c, database = d, security = e\<rparr>))))))"

text \<open>\<open>getMetrics\<close>: the object literal is a new object; the spread copies the five
  references.\<close>

definition getMetrics :: "process_env \<Rightarrow> heap \<Rightarrow> (ref \<times> heap) option" where
  "getMetrics env h =
     (case as_top (cells h metrics_at) of
        None \<Rightarrow> None
      | Some t \<Rightarrow>
          Some (fresh h,
                h\<lparr>cells := (cells h)(fresh h \<mapsto>
                       Top t (Some \<lparr>snap_timestamp = now_iso env, snap_uptime = uptime env,
                                    snap_memory = memoryUsage env, snap_cpu = cpuUsage env\<rparr>)),
                  fresh := fresh h + 1\<rparr>))"

text \<open>
  What a caller can do to the value it was given: assign one of its section properties
  (\<open>snap.requests = other\<close>), or write inside the section that a property refers to
  (\<open>snap.requests.total = 999\<close>, \<open>snap.errors.last24h.length = 0\<close>, ...).
\<close>

datatype mutation =
    Assign section_name ref
  | InRequests "requests_metrics \<Rightarrow> requests_metrics"
  | InPerformance "performance_metrics \<Rightarrow> performance_metrics"
  | InErrors "errors_metrics \<Rightarrow> errors_metrics"
  | InDatabase "database_metrics \<Rightarrow> database_metrics"
  | InSecurity "security_metrics \<Rightarrow> security_metrics"

definition write_cell :: "heap \<Rightarrow> ref \<Rightarrow> obj \<Rightarrow> heap" where
  "write_cell h r v = h\<lparr>cells := (cells h)(r \<mapsto> v)\<rparr>"

fun mutate :: "ref \<Rightarrow> heap \<Rightarrow> mutation \<Rightarrow> heap" where
  "mutate r h (Assign n r') =
     (case cells h r of
        Some (Top t x) \<Rightarrow> write_cell h r (Top (t(n := r')) x)
      | _ \<Rightarrow> h)"
| "mutate r h (InRequests f) =
     (case as_top (cells h r) of
        None \<Rightarrow> h
      | Some t \<Rightarrow> (case as_requests (cells h (t SRequests)) of
                     None \<Rightarrow> h
                   | Some a \<Rightarrow> write_cell h (t SRequests) (Requests (f a))))"
| "mutate r h (InPerformance f) =
     (case as_top (cells h r) of
        None \<Rightarrow> h
      | Some t \<Rightarrow> (case as_performance (cells h (t SPerformance)) of
                     None \<Rightarrow> h
                   | Some a \<Rightarrow> write_cell h (t SPerformance) (Performance (f a))))"
| "mutate r h (InErrors f) =
     (case as_top (cells h r) of
        None \<Rightarrow> h
      | Some t \<Rightarrow> (case as_errors (cells h (t SErrors)) of
                     None \<Rightarrow> h
                   | Some a \<Rightarrow> write_cell h (t SErrors) (Errors (f a))))"
| "mutate r h (InDatabase f) =
     (case as_top (cells h r) of
        None \<Rightarrow> h
      | Some t \<Rightarrow> (case as_database (cells h (t SDatabase)) of
                     None \<Rightarrow> h
                   | Some a \<Rightarrow> write_cell h (t SDatabase) (Database (f a))))"
| "mutate r h (InSecurity f) =
     (case as_top (cells h r) of
        None \<Rightarrow> h
      | Some t \<Rightarrow> (case as_security (cells h (t SSecurity)) of
                     None \<Rightarrow> h
                   | Some a \<Rightarrow> write_cell h (t SSecurity) (Security (f a))))"

text \<open>The effect of a write inside a section on the counters, by value.\<close>

fun written :: "mutation \<Rightarrow> metrics \<Rightarrow> metrics" where
  "written (Assign n r') m = m"
| "written (InRequests f) m = m\<lparr>requests := f (requests m)\<rparr>"
| "written (InPerformance f) m = m\<lparr>performance := f (performance m)\<rparr>"
| "written (InErrors f) m = m\<lparr>errors := f (errors m)\<rparr>"
| "written (InDatabase f) m = m\<lparr>database := f (database m)\<rparr>"
| "written (InSecurity f) m = m\<lparr>security := f (security m)\<rparr>"

text \<open>A store in which \<open>metrics\<close> has its five sections and nothing is allocated from
  \<open>fresh\<close> on.\<close>

definition heap_ok :: "heap \<Rightarrow> bool" where
  "heap_ok h = (view h metrics_at \<noteq> None \<and> (\<forall>r. fresh h \<le> r \<longrightarrow> cells h r = None))"

definition set_total :: "nat \<Rightarrow> requests_metrics \<Rightarrow> requests_metrics" where
  "set_total n a = a\<lparr>req_total := n\<rparr>"

subsection \<open>Sample values\<close>

definition sample_request :: request where
  "sample_request =
     \<lparr>req_method = ''GET'', req_route_path = None, req_path = ''/api/cardapio'',
      req_url = ''/api/cardapio'', req_ip = ''127.0.0.1''\<rparr>"

definition sample_served :: "int \<Rightarrow> served" where
  "sample_served ms = \<lparr>served_req = sample_request, served_status = 200, served_ms = ms\<rparr>"

definition sample_run :: "served list" where
  "sample_run = map sample_served [122, 969, 1883, 711, 1464, 147, 2282, 414]"

definition sample_env :: "nat \<Rightarrow> nat \<Rightarrow> process_env" where
  "sample_env used_bytes total_bytes =
     \<lparr>now_iso = ''2025-01-01T00:00:00.000Z'', uptime = 10, npm_package_version = None,
      NODE_ENV = None, memoryUsage = \<lparr>heapTotal = total_bytes, heapUsed = used_bytes\<rparr>,
      cpuUsage = (1000, 500)\<rparr>"

definition sample_error :: js_error where
  "sample_error = \<lparr>error_name = Some ''TypeError'', error_message = ''boom''\<rparr>"

definition sample_entry :: "int \<Rightarrow> error_entry" where
  "sample_entry t =
     \<lparr>timestamp = t, err_type = ''Error'', message = ''old'', url = ''/'', entry_method = ''GET'',
      ip = ''127.0.0.1''\<rparr>"

definition sample_history :: metrics where
  "sample_history = initial_metrics\<lparr>errors := initial_errors\<lparr>last24h := [sample_entry 0]\<rparr>\<rparr>"

definition sample_recorded :: error_entry where
  "sample_recorded =
     \<lparr>timestamp = 100000000, err_type = ''TypeError'', message = ''boom'',
      url = ''/api/cardapio'', entry_method = ''GET'', ip = ''127.0.0.1''\<rparr>"

fun is_assign :: "mutation \<Rightarrow> bool" where
  "is_assign (Assign n r) = True"
| "is_assign mu = False"


definition sample_snapshot_heap :: heap where
  "sample_snapshot_heap =
     initial_heap\<lparr>cells := (cells initial_heap)(6 \<mapsto>
        Top initial_sections
          (Some \<lparr>snap_timestamp = ''2025-01-01T00:00:00.000Z'', snap_uptime = 10,
                 snap_memory = \<lparr>heapTotal = 100, heapUsed = 50\<rparr>, snap_cpu = (1000, 500)\<rparr>)),
       fresh := 7\<rparr>"

section \<open>JavaScript values of a request\<close>

subsection \<open>Strings\<close>

text \<open>
  Strings are lists of bytes. The white space that \<open>trim\<close>, \<open>parseFloat\<close> and \<open>parseInt\<close>
  skip is the ASCII part of JavaScript's: tab, line feed, vertical tab, form feed, carriage
  return and space.
\<close>

definition is_space :: "char \<Rightarrow> bool" where
  "is_space c = (c \<in> set [CHR 0x09, CHR 0x0A, CHR 0x0B, CHR 0x0C, CHR 0x0D, CHR 0x20])"

definition trim :: "string \<Rightarrow> string" where
  "trim s = rev (dropWhile is_space (rev (dropWhile is_space s)))"

definition is_digit :: "char \<Rightarrow> bool" where
  "is_digit c = (48 \<le> (of_char c :: nat) \<and> (of_char c :: nat) \<le> 57)"

definition digit_val :: "char \<Rightarrow> nat" where
  "digit_val c = of_char c - 48"

definition digits_val :: "string \<Rightarrow> nat" where
  "digits_val ds = foldl (\<lambda>a c. 10 * a + digit_val c) 0 ds"

definition is_hex_digit :: "char \<Rightarrow> bool" where
  "is_hex_digit c =
     (let n = (of_char c :: nat)
      in (48 \<le> n \<and> n \<le> 57) \<or> (65 \<le> n \<and> n \<le> 70) \<or> (97 \<le> n \<and> n \<le> 102))"

definition hex_digit_val :: "char \<Rightarrow> nat" where
  "hex_digit_val c =
     (let n = (of_char c :: nat)
      in if n \<le> 57 then n - 48 else if n \<le> 70 then n - 55 else n - 87)"

definition hex_val :: "string \<Rightarrow> nat" where
  "hex_val ds = foldl (\<lambda>a c. 16 * a + hex_digit_val c) 0 ds"

text \<open>An optional sign in front of a numeral: the sign and the rest of the string.\<close>

definition sign_split :: "string \<Rightarrow> int \<times> string" where
  "sign_split s =
     (case s of
        [] \<Rightarrow> (1, [])
      | c # cs \<Rightarrow> if c = CHR ''-'' then (- 1, cs) else if c = CHR ''+'' then (1, cs) else (1, s))"

text \<open>The exponent part that may follow a mantissa: \<open>e\<close> or \<open>E\<close>, an optional sign and at
  least one digit; anything else is no exponent.\<close>

definition exponent_part :: "string \<Rightarrow> int" where
  "exponent_part s =
     (case s of
        [] \<Rightarrow> 0
      | c # cs \<Rightarrow>
          if c = CHR ''e'' \<or> c = CHR ''E''
          then (let (sg, r) = sign_split cs; ds = takeWhile is_digit r
                in if ds = [] then 0 else sg * int (digits_val ds))
          else 0)"

definition scale10 :: "rat \<Rightarrow> int \<Rightarrow> rat" where
  "scale10 x e = (if 0 \<le> e then x * 10 ^ nat e else x / 10 ^ nat (- e))"

text \<open>\<open>parseFloat\<close> of a string: the double nearest to the longest prefix, after leading
  white space, that is a decimal literal, or a signed \<open>Infinity\<close>; NaN when there is no such
  prefix.\<close>

definition parseFloat_str :: "string \<Rightarrow> jsnum" where
  "parseFloat_str s =
     (let (sg, r) = sign_split (dropWhile is_space s)
      in if take 8 r = ''Infinity'' then js_inf (of_int sg)
         else
           (let ip = takeWhile is_digit r;
                r1 = dropWhile is_digit r;
                dot = (r1 \<noteq> [] \<and> hd r1 = CHR ''.'');
                fp = (if dot then takeWhile is_digit (tl r1) else []);
                r2 = (if dot then dropWhile is_digit (tl r1) else r1)
            in if ip = [] \<and> fp = [] then NaN
               else Num (fl (scale10
                      (of_int sg * (of_nat (digits_val ip)
                                    + of_nat (digits_val fp) / 10 ^ length fp))
                      (exponent_part r2)))))"

text \<open>A JavaScript number that is an integer or NaN (\<open>None\<close>), as \<open>parseInt\<close> returns.\<close>

type_synonym jsint = "int option"

text \<open>\<open>parseInt\<close> of a string, with no radix given: leading white space, an optional sign,
  then hexadecimal digits after \<open>0x\<close> or \<open>0X\<close> and decimal digits otherwise.\<close>

definition parseInt_str :: "string \<Rightarrow> jsint" where
  "parseInt_str s =
     (let (sg, r) = sign_split (dropWhile is_space s)
      in if take 2 r = ''0x'' \<or> take 2 r = ''0X''
         then (let ds = takeWhile is_hex_digit (drop 2 r)
               in if ds = [] then None else Some (sg * int (hex_val ds)))
         else (let ds = takeWhile is_digit r
               in if ds = [] then None else Some (sg * int (digits_val ds))))"

text \<open>\<open>n.toString()\<close> of a natural number, and \<open>padStart\<close>.\<close>

definition digit_char :: "nat \<Rightarrow> char" where
  "digit_char d = char_of (48 + d)"

fun toString :: "nat \<Rightarrow> string" where
  "toString n = (if n < 10 then [digit_char n] else toString (n div 10) @ [digit_char (n mod 10)])"

declare toString.simps [simp del]

definition padStart :: "nat \<Rightarrow> char \<Rightarrow> string \<Rightarrow> string" where
  "padStart k c s = replicate (k - length s) c @ s"

subsection \<open>Values\<close>

text \<open>
  The value of a property of a parsed JSON body: absent (\<open>undefined\<close>), \<open>null\<close>, a boolean,
  a number, a string or a plain object. Arrays are left out. A number is one that
  JavaScript prints in plain decimal notation (zero, or of magnitude from \<open>10^-6\<close> up to
  \<open>10^21\<close>), so that \<open>parseInt\<close>, which reads the printed form, truncates it.
\<close>

datatype jsval = Undefined | Null | JBool bool | JNum rat | JStr string | JObj

fun truthy :: "jsval \<Rightarrow> bool" where
  "truthy Undefined = False"
| "truthy Null = False"
| "truthy (JBool b) = b"
| "truthy (JNum n) = (n \<noteq> 0)"
| "truthy (JStr s) = (s \<noteq> [])"
| "truthy JObj = True"

definition Boolean :: "jsval \<Rightarrow> bool" where
  "Boolean v = truthy v"


fun parseFloat :: "jsval \<Rightarrow> jsnum" where
  "parseFloat (JNum n) = Num n"
| "parseFloat (JStr s) = parseFloat_str s"
| "parseFloat v = NaN"

definition truncate :: "rat \<Rightarrow> int" where
  "truncate x = (if 0 \<le> x then \<lfloor>x\<rfloor> else \<lceil>x\<rceil>)"

fun parseInt :: "jsval \<Rightarrow> jsint" where
  "parseInt (JNum n) = Some (truncate n)"
| "parseInt (JStr s) = parseInt_str s"
| "parseInt v = None"

section \<open>Stored data\<close>

text \<open>
  The rows of the two tables, typed as the migration declares them; the timestamps the
  store maintains by itself are left out. A dish's \<open>id_categoria\<close> is the field
  \<open>categoria_id\<close> here, since a category has a field of that name too. Identifiers are
  natural numbers. A price is an exact rational: the precision of the column
  (\<open>DECIMAL(10,2)\<close>) is not modelled.
\<close>

record categoria =
  id_categoria :: nat
  nome_categoria :: string
  ordem_exibicao :: int

record prato =
  id_prato :: nat
  codigo_prato :: string
  nome_prato :: string
  descricao :: string
  preco :: rat
  disponivel :: bool
  categoria_id :: nat
  tipo_item :: string

text \<open>The default item type \<open>'Card\<acute>apio'\<close>, in the bytes of its UTF-8 encoding.\<close>

definition Cardapio :: string where
  "Cardapio = ''Card'' @ [CHR 0xC3, CHR 0xA1] @ ''pio''"

text \<open>The code derived from an identifier: \<open>`PRATO${id.toString().padStart(3, '0')}`\<close>.\<close>

definition codigoPrato :: "nat \<Rightarrow> string" where
  "codigoPrato n = ''PRATO'' @ padStart 3 (CHR ''0'') (toString n)"

text \<open>An entry of the public menu.\<close>

record cardapio_item =
  card_categoria :: string
  card_ordem_exibicao :: int
  card_pratos :: "prato list"

section \<open>The JSON-file database (models/database)\<close>

text \<open>
  The two files, by their parsed contents. Reading and writing them is taken to succeed.
\<close>

record files =
  categorias_json :: "categoria list"
  pratos_json :: "prato list"

text \<open>\<open>categorias.sort((a, b) => a.ordem_exibicao - b.ordem_exibicao)\<close>: a stable sort.\<close>

definition Database_getCategorias :: "files \<Rightarrow> categoria list" where
  "Database_getCategorias f = sort_key ordem_exibicao (categorias_json f)"

definition Database_getPratos :: "files \<Rightarrow> prato list" where
  "Database_getPratos f = pratos_json f"

definition Database_getPratosDisponiveis :: "files \<Rightarrow> cardapio_item list" where
  "Database_getPratosDisponiveis f =
     (let pratos = Database_getPratos f;
          categorias = Database_getCategorias f;
          pratosDisponiveis = filter (\<lambda>prato. disponivel prato = True) pratos;
          cardapio =
            filter (\<lambda>item. 0 < length (card_pratos item))
              (map (\<lambda>categoria.
                      \<lparr>card_categoria = nome_categoria categoria,
                       card_ordem_exibicao = ordem_exibicao categoria,
                       card_pratos = filter (\<lambda>prato. categoria_id prato = id_categoria categoria)
                                       pratosDisponiveis\<rparr>)
                 categorias)
      in cardapio)"

text \<open>
  The argument of \<open>createPrato\<close>, well typed: a price that is a number and a category
  identifier that is an integer, which \<open>parseFloat\<close> and \<open>parseInt\<close> return as they are; an
  availability and an item type that may be missing.
\<close>

record novo_prato =
  np_nome_prato :: string
  np_descricao :: string
  np_preco :: rat
  np_disponivel :: "bool option"
  np_id_categoria :: nat
  np_tipo_item :: "string option"

definition Database_createPrato :: "files \<Rightarrow> novo_prato \<Rightarrow> prato \<times> files" where
  "Database_createPrato f dadosPrato =
     (let pratos = pratos_json f;
          novoId = (if 0 < length pratos then Max (set (map id_prato pratos)) + 1 else 1);
          novoPrato =
            \<lparr>id_prato = novoId,
             codigo_prato = codigoPrato novoId,
             nome_prato = np_nome_prato dadosPrato,
             descricao = np_descricao dadosPrato,
             preco = np_preco dadosPrato,
             disponivel = (case np_disponivel dadosPrato of None \<Rightarrow> True | Some b \<Rightarrow> b),
             categoria_id = np_id_categoria dadosPrato,
             tipo_item = (case np_tipo_item dadosPrato of
                            None \<Rightarrow> Cardapio
                          | Some s \<Rightarrow> if s = [] then Cardapio else s)\<rparr>
      in (novoPrato, f\<lparr>pratos_json := pratos @ [novoPrato]\<rparr>))"

text \<open>A sequence of creations, each on the files the one before has written.\<close>

definition Database_createPratos :: "files \<Rightarrow> novo_prato list \<Rightarrow> files" where
  "Database_createPratos f ds = foldl (\<lambda>g d. snd (Database_createPrato g d)) f ds"

text \<open>The identifier that \<open>createPrato\<close> computes for the files it reads.\<close>

definition novoId :: "files \<Rightarrow> nat" where
  "novoId f = (if pratos_json f = [] then 1 else Max (set (map id_prato (pratos_json f))) + 1)"


subsection \<open>Sample files\<close>

definition sample_files :: files where
  "sample_files =
     \<lparr>categorias_json =
        [\<lparr>id_categoria = 1, nome_categoria = ''Entradas'', ordem_exibicao = 1\<rparr>],
      pratos_json =
        [\<lparr>id_prato = 1, codigo_prato = ''PRATO001'', nome_prato = ''Bruschetta'',
          descricao = ''b'', preco = 10, disponivel = True, categoria_id = 1,
          tipo_item = ''Menu''\<rparr>,
         \<lparr>id_prato = 2, codigo_prato = ''PRATO002'', nome_prato = ''Azeitonas'',
          descricao = ''a'', preco = 12, disponivel = True, categoria_id = 1,
          tipo_item = ''Menu''\<rparr>]\<rparr>"

definition sample_novo :: novo_prato where
  "sample_novo =
     \<lparr>np_nome_prato = ''Bolo'', np_descricao = ''x'', np_preco = 10, np_disponivel = None,
      np_id_categoria = 1, np_tipo_item = None\<rparr>"

section \<open>The relational store and the Prisma adapter (models/prismaDatabase)\<close>

text \<open>
  The two tables and the sequence that numbers the dishes (\<open>id_prato SERIAL\<close>). Of the
  migration's constraints, those that the operations below can meet are modelled: the
  primary key of the dishes, the unique index on \<open>codigo_prato\<close> and the foreign key from a
  dish to its category. The client checks its arguments before it reaches the store: an
  identifier that is NaN, a price that is not a finite number and an item type that is not a
  string are refused with a validation error.
\<close>

record tables =
  categorias :: "categoria list"
  pratos :: "prato list"
  pratos_id_prato_seq :: nat

text \<open>The errors of the client, by their codes; \<open>P2002\<close> (unique constraint) names the
  fields of the constraint in \<open>meta.target\<close>.\<close>

datatype prisma_error = P2002 "string list" | P2003 | P2025 | PrismaClientValidationError

datatype exception = TypeError | PrismaError prisma_error

text \<open>\<open>v.trim()\<close>: a method of strings only; on any other value the call raises a TypeError.\<close>

fun call_trim :: "jsval \<Rightarrow> exception + string" where
  "call_trim (JStr s) = Inr (trim s)"
| "call_trim v = Inl TypeError"

subsection \<open>Queries of the client\<close>

text \<open>A dish with \<open>include: {categoria: true}\<close>.\<close>

type_synonym prato_categoria = "prato \<times> categoria option"

definition with_categoria :: "tables \<Rightarrow> prato \<Rightarrow> prato_categoria" where
  "with_categoria t p = (p, find (\<lambda>c. id_categoria c = categoria_id p) (categorias t))"

definition categoria_findUnique :: "tables \<Rightarrow> jsint \<Rightarrow> exception + categoria option" where
  "categoria_findUnique t i =
     (case i of
        None \<Rightarrow> Inl (PrismaError PrismaClientValidationError)
      | Some n \<Rightarrow> Inr (find (\<lambda>c. int (id_categoria c) = n) (categorias t)))"

definition prato_findUnique :: "tables \<Rightarrow> jsint \<Rightarrow> exception + prato_categoria option" where
  "prato_findUnique t i =
     (case i of
        None \<Rightarrow> Inl (PrismaError PrismaClientValidationError)
      | Some n \<Rightarrow> Inr (map_option (with_categoria t)
                        (find (\<lambda>p. int (id_prato p) = n) (pratos t))))"

text \<open>\<open>findFirst\<close> with \<open>orderBy: {id_prato: 'desc'}\<close>: the dish with the greatest identifier.\<close>

definition prato_findFirst_desc :: "tables \<Rightarrow> prato option" where
  "prato_findFirst_desc t =
     (if pratos t = [] then None
      else find (\<lambda>p. id_prato p = Max (set (map id_prato (pratos t)))) (pratos t))"

text \<open>\<open>ORDER BY\<close> is a sort on the key; rows with equal keys are left in the order of the
  table, and names are compared byte by byte.\<close>

definition ordem_da_categoria :: "tables \<Rightarrow> prato \<Rightarrow> int" where
  "ordem_da_categoria t p =
     (case find (\<lambda>c. id_categoria c = categoria_id p) (categorias t) of
        None \<Rightarrow> 0
      | Some c \<Rightarrow> ordem_exibicao c)"

text \<open>The data of \<open>prato.create\<close>, as the adapter passes it.\<close>

record prato_create_data =
  c_codigo_prato :: string
  c_nome_prato :: string
  c_descricao :: string
  c_preco :: jsnum
  c_disponivel :: bool
  c_id_categoria :: jsint
  c_tipo_item :: jsval

text \<open>\<open>prato.create\<close>: the store takes the next value of the sequence for the identifier,
  whether or not the row is then accepted.\<close>

definition prato_create ::
  "tables \<Rightarrow> prato_create_data \<Rightarrow> (exception + prato_categoria) \<times> tables" where
  "prato_create t d =
     (case c_preco d of
        Num q \<Rightarrow>
          (case c_id_categoria d of
             Some c \<Rightarrow>
               (case c_tipo_item d of
                  JStr s \<Rightarrow>
                    (let novo_id = pratos_id_prato_seq t + 1;
                         t1 = t\<lparr>pratos_id_prato_seq := novo_id\<rparr>;
                         p = \<lparr>id_prato = novo_id, codigo_prato = c_codigo_prato d,
                              nome_prato = c_nome_prato d, descricao = c_descricao d,
                              preco = q, disponivel = c_disponivel d,
                              categoria_id = nat c, tipo_item = s\<rparr>
                     in if novo_id \<in> set (map id_prato (pratos t))
                        then (Inl (PrismaError (P2002 [''id_prato''])), t1)
                        else if c_codigo_prato d \<in> set (map codigo_prato (pratos t))
                        then (Inl (PrismaError (P2002 [''codigo_prato''])), t1)
                        else if c < 0 \<or> nat c \<notin> set (map id_categoria (categorias t))
                        then (Inl (PrismaError P2003), t1)
                        else (Inr (with_categoria t p), t1\<lparr>pratos := pratos t @ [p]\<rparr>))
                | _ \<Rightarrow> (Inl (PrismaError PrismaClientValidationError), t))
           | None \<Rightarrow> (Inl (PrismaError PrismaClientValidationError), t))
      | _ \<Rightarrow> (Inl (PrismaError PrismaClientValidationError), t))"

text \<open>The data of \<open>prato.update\<close>: the fields to change.\<close>

record dados_atualizacao =
  a_nome_prato :: "string option"
  a_descricao :: "string option"
  a_preco :: "jsnum option"
  a_disponivel :: "bool option"
  a_id_categoria :: "jsint option"

fun finite_or_absent :: "jsnum option \<Rightarrow> bool" where
  "finite_or_absent None = True"
| "finite_or_absent (Some (Num q)) = True"
| "finite_or_absent (Some x) = False"

fun number_or :: "jsnum option \<Rightarrow> rat \<Rightarrow> rat" where
  "number_or (Some (Num q)) d = q"
| "number_or x d = d"

fun integer_or :: "jsint option \<Rightarrow> nat \<Rightarrow> nat" where
  "integer_or (Some (Some c)) d = nat c"
| "integer_or x d = d"

fun references :: "tables \<Rightarrow> jsint option \<Rightarrow> bool" where
  "references t (Some (Some c)) = (0 \<le> c \<and> nat c \<in> set (map id_categoria (categorias t)))"
| "references t x = True"

definition apply_update :: "dados_atualizacao \<Rightarrow> prato \<Rightarrow> prato" where
  "apply_update d p =
     p\<lparr>nome_prato := (case a_nome_prato d of None \<Rightarrow> nome_prato p | Some n \<Rightarrow> n),
       descricao := (case a_descricao d of None \<Rightarrow> descricao p | Some s \<Rightarrow> s),
       preco := number_or (a_preco d) (preco p),
       disponivel := (case a_disponivel d of None \<Rightarrow> disponivel p | Some b \<Rightarrow> b),
       categoria_id := integer_or (a_id_categoria d) (categoria_id p)\<rparr>"

text \<open>\<open>prato.update\<close> with \<open>where: {id_prato: i}\<close>.\<close>

definition prato_update ::
  "tables \<Rightarrow> jsint \<Rightarrow> dados_atualizacao \<Rightarrow> (exception + prato_categoria) \<times> tables" where
  "prato_update t i d =
     (case i of
        None \<Rightarrow> (Inl (PrismaError PrismaClientValidationError), t)
      | Some n \<Rightarrow>
          if \<not> finite_or_absent (a_preco d) \<or> a_id_categoria d = Some None
          then (Inl (PrismaError PrismaClientValidationError), t)
          else
            (case find (\<lambda>p. int (id_prato p) = n) (pratos t) of
               None \<Rightarrow> (Inl (PrismaError P2025), t)
             | Some p \<Rightarrow>
                 if \<not> references t (a_id_categoria d) then (Inl (PrismaError P2003), t)
                 else
                   (let t1 = t\<lparr>pratos := map (\<lambda>q. if int (id_prato q) = n
                                                   then apply_update d q else q) (pratos t)\<rparr>
                    in (Inr (with_categoria t1 (apply_update d p)), t1))))"

subsection \<open>The adapter\<close>

definition PrismaDatabase_getCategorias :: "tables \<Rightarrow> categoria list" where
  "PrismaDatabase_getCategorias t = sort_key ordem_exibicao (categorias t)"

definition PrismaDatabase_getCategoriaById ::
  "tables \<Rightarrow> jsval \<Rightarrow> exception + categoria option" where
  "PrismaDatabase_getCategoriaById t ident = categoria_findUnique t (parseInt ident)"

definition PrismaDatabase_getPratos :: "tables \<Rightarrow> prato_categoria list" where
  "PrismaDatabase_getPratos t =
     map (with_categoria t)
       (sort_key (ordem_da_categoria t) (sort_key nome_prato (pratos t)))"

definition PrismaDatabase_getPratosDisponiveis :: "tables \<Rightarrow> cardapio_item list" where
  "PrismaDatabase_getPratosDisponiveis t =
     (let categorias =
            map (\<lambda>c. (c, sort_key nome_prato
                           (filter (\<lambda>p. categoria_id p = id_categoria c \<and> disponivel p = True)
                              (pratos t))))
              (sort_key ordem_exibicao (categorias t));
          cardapio =
            map (\<lambda>(c, ps). \<lparr>card_categoria = nome_categoria c,
                             card_ordem_exibicao = ordem_exibicao c,
                             card_pratos = ps\<rparr>)
              (filter (\<lambda>(c, ps). 0 < length ps) categorias)
      in cardapio)"

definition PrismaDatabase_getPratoById ::
  "tables \<Rightarrow> jsval \<Rightarrow> exception + prato_categoria option" where
  "PrismaDatabase_getPratoById t ident = prato_findUnique t (parseInt ident)"

text \<open>
  \<open>dadosPrato\<close> as \<open>criarPrato\<close> builds it: the price is already a number and the category
  identifier already an integer or NaN, so that \<open>parseFloat\<close> and \<open>parseInt\<close> in \<open>createPrato\<close>
  return them as they are.
\<close>

record dados_prato =
  d_nome_prato :: string
  d_descricao :: string
  d_preco :: jsnum
  d_id_categoria :: jsint
  d_disponivel :: "bool option"
  d_tipo_item :: jsval

definition PrismaDatabase_createPrato ::
  "tables \<Rightarrow> dados_prato \<Rightarrow> (exception + prato_categoria) \<times> tables" where
  "PrismaDatabase_createPrato t dadosPrato =
     (let ultimoPrato = prato_findFirst_desc t;
          proximoId = (case ultimoPrato of Some p \<Rightarrow> id_prato p + 1 | None \<Rightarrow> 1)
      in prato_create t
           \<lparr>c_codigo_prato = codigoPrato proximoId,
            c_nome_prato = d_nome_prato dadosPrato,
            c_descricao = d_descricao dadosPrato,
            c_preco = d_preco dadosPrato,
            c_disponivel = (case d_disponivel dadosPrato of None \<Rightarrow> True | Some b \<Rightarrow> b),
            c_id_categoria = d_id_categoria dadosPrato,
            c_tipo_item = (if truthy (d_tipo_item dadosPrato) then d_tipo_item dadosPrato
                           else JStr Cardapio)\<rparr>)"

definition PrismaDatabase_updatePrato ::
  "tables \<Rightarrow> jsval \<Rightarrow> dados_atualizacao \<Rightarrow> (exception + prato_categoria) \<times> tables" where
  "PrismaDatabase_updatePrato t ident dadosAtualizacao =
     (let updateData =
            \<lparr>a_nome_prato = a_nome_prato dadosAtualizacao,
             a_descricao = a_descricao dadosAtualizacao,
             a_preco = a_preco dadosAtualizacao,
             a_disponivel = a_disponivel dadosAtualizacao,
             a_id_categoria = a_id_categoria dadosAtualizacao\<rparr>
      in prato_update t (parseInt ident) updateData)"


section \<open>The administrative controller (controllers/adminControllerPrisma)\<close>

text \<open>
  What a handler reads of a request: the identifier in the path, a string, and the six
  properties of the body that the handlers destructure. What it answers: a status and a
  JSON body. Error bodies are named by their kind instead of their texts, and the
  \<open>details\<close> of a development environment are left out; log lines are not modelled.
\<close>

record corpo =
  b_nome_prato :: jsval
  b_descricao :: jsval
  b_preco :: jsval
  b_id_categoria :: jsval
  b_disponivel :: jsval
  b_tipo_item :: jsval

datatype erro =
    DadosInvalidos | CategoriaInvalida | PrecoInvalido | CodigoDuplicado | NomeInvalido
  | ParametroInvalido | PratoNaoEncontrado | ErroInterno

datatype mensagem = PratoCriado | PratoAtualizado | MarcadoDisponivel | MarcadoIndisponivel

text \<open>A dish in an answer: its row and the \<open>nome_categoria\<close> added to it, which is
  \<open>undefined\<close> (\<open>None\<close>) when the row came without its category.\<close>

record prato_resposta =
  r_prato :: prato
  r_nome_categoria :: "string option"

record estatisticas =
  total_pratos :: nat
  pratos_disponiveis :: nat
  pratos_indisponiveis :: nat
  categorias_ativas :: nat

datatype corpo_resposta =
    Erro erro
  | Prato mensagem prato_resposta
  | Pratos "prato_resposta list" estatisticas

record resposta =
  res_status :: nat
  res_json :: corpo_resposta

definition responder :: "nat \<Rightarrow> corpo_resposta \<Rightarrow> resposta" where
  "responder s j = \<lparr>res_status = s, res_json = j\<rparr>"

definition resposta_prato :: "prato_categoria \<Rightarrow> prato_resposta" where
  "resposta_prato pc = \<lparr>r_prato = fst pc, r_nome_categoria = map_option nome_categoria (snd pc)\<rparr>"

text \<open>The text \<open>'Categoria n\<tilde>ao encontrada'\<close>, in the bytes of its UTF-8 encoding.\<close>

definition Categoria_nao_encontrada :: string where
  "Categoria_nao_encontrada = ''Categoria n'' @ [CHR 0xC3, CHR 0xA3] @ ''o encontrada''"

subsection \<open>getTodosPratos\<close>

definition getTodosPratos :: "tables \<Rightarrow> resposta" where
  "getTodosPratos t =
     (let pratos = PrismaDatabase_getPratos t;
          categorias = PrismaDatabase_getCategorias t;
          pratosEnriquecidos =
            map (\<lambda>prato.
                   \<lparr>r_prato = fst prato,
                    r_nome_categoria =
                      Some (case snd prato of
                              Some c \<Rightarrow> nome_categoria c
                            | None \<Rightarrow> Categoria_nao_encontrada)\<rparr>)
              pratos;
          estatisticas =
            \<lparr>total_pratos = length pratos,
             pratos_disponiveis = length (filter (\<lambda>p. disponivel (fst p)) pratos),
             pratos_indisponiveis = length (filter (\<lambda>p. \<not> disponivel (fst p)) pratos),
             categorias_ativas = length categorias\<rparr>
      in responder 200 (Pratos pratosEnriquecidos estatisticas))"

text \<open>The same handler in \<open>controllers/adminController\<close>, over the JSON-file database, for
  a request that carries its user.\<close>

definition getTodosPratos_json :: "files \<Rightarrow> resposta" where
  "getTodosPratos_json f =
     (let pratos = Database_getPratos f;
          categorias = Database_getCategorias f;
          pratosEnriquecidos =
            map (\<lambda>prato.
                   \<lparr>r_prato = prato,
                    r_nome_categoria =
                      Some (case find (\<lambda>cat. id_categoria cat = categoria_id prato) categorias of
                              Some c \<Rightarrow> nome_categoria c
                            | None \<Rightarrow> Categoria_nao_encontrada)\<rparr>)
              pratos;
          estatisticas =
            \<lparr>total_pratos = length pratos,
             pratos_disponiveis = length (filter (\<lambda>p. disponivel p) pratos),
             pratos_indisponiveis = length (filter (\<lambda>p. \<not> disponivel p) pratos),
             categorias_ativas = length categorias\<rparr>
      in responder 200 (Pratos pratosEnriquecidos estatisticas))"

fun estatisticas_de :: "resposta \<Rightarrow> estatisticas option" where
  "estatisticas_de r = (case res_json r of Pratos ps e \<Rightarrow> Some e | _ \<Rightarrow> None)"

subsection \<open>criarPrato\<close>

text \<open>The \<open>catch\<close> of \<open>criarPrato\<close>: a unique-constraint error on \<open>codigo_prato\<close> is answered
  with 400, every other exception with 500.\<close>

fun codigo_duplicado :: "exception \<Rightarrow> bool" where
  "codigo_duplicado (PrismaError (P2002 target)) = (''codigo_prato'' \<in> set target)"
| "codigo_duplicado e = False"

definition criarPrato_catch :: "exception \<Rightarrow> resposta" where
  "criarPrato_catch e =
     (if codigo_duplicado e then responder 400 (Erro CodigoDuplicado)
      else responder 500 (Erro ErroInterno))"

definition criarPrato :: "tables \<Rightarrow> corpo \<Rightarrow> resposta \<times> tables" where
  "criarPrato t b =
     (if \<not> truthy (b_nome_prato b) \<or> \<not> truthy (b_descricao b) \<or> \<not> truthy (b_preco b)
         \<or> \<not> truthy (b_id_categoria b)
      then (responder 400 (Erro DadosInvalidos), t)
      else
        (case PrismaDatabase_getCategoriaById t (b_id_categoria b) of
           Inl e \<Rightarrow> (criarPrato_catch e, t)
         | Inr None \<Rightarrow> (responder 400 (Erro CategoriaInvalida), t)
         | Inr (Some categoria) \<Rightarrow>
             (let precoNumerico = parseFloat (b_preco b)
              in if isNaN precoNumerico \<or> js_lt precoNumerico (Num 0)
                 then (responder 400 (Erro PrecoInvalido), t)
                 else
                   (case call_trim (b_nome_prato b) of
                      Inl e \<Rightarrow> (criarPrato_catch e, t)
                    | Inr nome \<Rightarrow>
                        (case call_trim (b_descricao b) of
                           Inl e \<Rightarrow> (criarPrato_catch e, t)
                         | Inr descr \<Rightarrow>
                             (let dadosPrato =
                                    \<lparr>d_nome_prato = nome,
                                     d_descricao = descr,
                                     d_preco = precoNumerico,
                                     d_id_categoria = parseInt (b_id_categoria b),
                                     d_disponivel =
                                       Some (if b_disponivel b \<noteq> Undefined
                                             then Boolean (b_disponivel b) else True),
                                     d_tipo_item =
                                       (if truthy (b_tipo_item b) then b_tipo_item b
                                        else JStr Cardapio)\<rparr>
                              in case PrismaDatabase_createPrato t dadosPrato of
                                   (Inl e, t') \<Rightarrow> (criarPrato_catch e, t')
                                 | (Inr novoPrato, t') \<Rightarrow>
                                     (responder 201 (Prato PratoCriado (resposta_prato novoPrato)),
                                      t')))))))"

subsection \<open>atualizarPrato\<close>

text \<open>The four blocks that validate a field when it is present: each either answers the
  request or gives the value to store, if any.\<close>

definition campo_nome_prato :: "jsval \<Rightarrow> resposta + string option" where
  "campo_nome_prato v =
     (if v \<noteq> Undefined
      then (case call_trim v of
              Inl e \<Rightarrow> Inl (responder 500 (Erro ErroInterno))
            | Inr s \<Rightarrow> if s = [] then Inl (responder 400 (Erro NomeInvalido)) else Inr (Some s))
      else Inr None)"

definition campo_descricao :: "jsval \<Rightarrow> resposta + string option" where
  "campo_descricao v =
     (if v \<noteq> Undefined
      then (case call_trim v of
              Inl e \<Rightarrow> Inl (responder 500 (Erro ErroInterno))
            | Inr s \<Rightarrow> Inr (Some s))
      else Inr None)"

definition campo_preco :: "jsval \<Rightarrow> resposta + jsnum option" where
  "campo_preco v =
     (if v \<noteq> Undefined
      then (let precoNumerico = parseFloat v
            in if isNaN precoNumerico \<or> js_lt precoNumerico (Num 0)
               then Inl (responder 400 (Erro PrecoInvalido))
               else Inr (Some precoNumerico))
      else Inr None)"

definition campo_id_categoria :: "tables \<Rightarrow> jsval \<Rightarrow> resposta + jsint option" where
  "campo_id_categoria t v =
     (if v \<noteq> Undefined
      then (case PrismaDatabase_getCategoriaById t v of
              Inl e \<Rightarrow> Inl (responder 500 (Erro ErroInterno))
            | Inr None \<Rightarrow> Inl (responder 400 (Erro CategoriaInvalida))
            | Inr (Some categoria) \<Rightarrow> Inr (Some (parseInt v)))
      else Inr None)"

definition atualizarPrato :: "tables \<Rightarrow> jsval \<Rightarrow> corpo \<Rightarrow> resposta \<times> tables" where
  "atualizarPrato t ident b =
     (case PrismaDatabase_getPratoById t ident of
        Inl e \<Rightarrow> (responder 500 (Erro ErroInterno), t)
      | Inr None \<Rightarrow> (responder 404 (Erro PratoNaoEncontrado), t)
      | Inr (Some pratoExistente) \<Rightarrow>
          (case campo_nome_prato (b_nome_prato b) of
             Inl r \<Rightarrow> (r, t)
           | Inr nome \<Rightarrow>
               (case campo_descricao (b_descricao b) of
                  Inl r \<Rightarrow> (r, t)
                | Inr descr \<Rightarrow>
                    (case campo_preco (b_preco b) of
                       Inl r \<Rightarrow> (r, t)
                     | Inr prec \<Rightarrow>
                         (case campo_id_categoria t (b_id_categoria b) of
                            Inl r \<Rightarrow> (r, t)
                          | Inr cat \<Rightarrow>
                              (let dadosAtualizacao =
                                     \<lparr>a_nome_prato = nome, a_descricao = descr, a_preco = prec,
                                      a_disponivel =
                                        (if b_disponivel b \<noteq> Undefined
                                         then Some (Boolean (b_disponivel b)) else None),
                                      a_id_categoria = cat\<rparr>
                               in case PrismaDatabase_updatePrato t ident dadosAtualizacao of
                                    (Inl e, t') \<Rightarrow> (responder 500 (Erro ErroInterno), t')
                                  | (Inr pratoAtualizado, t') \<Rightarrow>
                                      (responder 200
                                         (Prato PratoAtualizado (resposta_prato pratoAtualizado)),
                                       t')))))))"

subsection \<open>alterarDisponibilidade\<close>


subsection \<open>Sample tables and requests\<close>

definition sample_tables :: tables where
  "sample_tables =
     \<lparr>categorias =
        [\<lparr>id_categoria = 2, nome_categoria = ''Pratos Principais'', ordem_exibicao = 2\<rparr>,
         \<lparr>id_categoria = 1, nome_categoria = ''Entradas'', ordem_exibicao = 1\<rparr>,
         \<lparr>id_categoria = 3, nome_categoria = ''Sobremesas'', ordem_exibicao = 3\<rparr>],
      pratos =
        [\<lparr>id_prato = 1, codigo_prato = ''PRATO001'', nome_prato = ''Bruschetta'',
          descricao = ''b'', preco = 10, disponivel = True, categoria_id = 1,
          tipo_item = ''Menu''\<rparr>,
         \<lparr>id_prato = 2, codigo_prato = ''PRATO002'', nome_prato = ''Azeitonas'',
          descricao = ''a'', preco = 12, disponivel = True, categoria_id = 1,
          tipo_item = ''Menu''\<rparr>,
         \<lparr>id_prato = 3, codigo_prato = ''PRATO003'', nome_prato = ''Tiramisu'',
          descricao = ''t'', preco = 17, disponivel = False, categoria_id = 3,
          tipo_item = ''Menu''\<rparr>],
      pratos_id_prato_seq = 3\<rparr>"

definition corpo_vazio :: corpo where
  "corpo_vazio =
     \<lparr>b_nome_prato = Undefined, b_descricao = Undefined, b_preco = Undefined,
      b_id_categoria = Undefined, b_disponivel = Undefined, b_tipo_item = Undefined\<rparr>"

definition corpo_bolo :: corpo where
  "corpo_bolo =
     corpo_vazio\<lparr>b_nome_prato := JStr ''Bolo'', b_descricao := JStr ''x'',
                 b_preco := JStr ''10.00'', b_id_categoria := JNum 1\<rparr>"

subsection \<open>The public menu, as the specification words it\<close>

text \<open>The available dishes of a category, in the order they are stored; and the categories
  in display order, those with no available dish left out.\<close>

definition disponiveis_da :: "prato list \<Rightarrow> categoria \<Rightarrow> prato list" where
  "disponiveis_da ps c = filter (\<lambda>p. categoria_id p = id_categoria c \<and> disponivel p) ps"

definition categorias_do_cardapio :: "prato list \<Rightarrow> categoria list \<Rightarrow> categoria list" where
  "categorias_do_cardapio ps cs =
     filter (\<lambda>c. disponiveis_da ps c \<noteq> []) (sort_key ordem_exibicao cs)"


subsection \<open>Requests, as the specification words them\<close>

fun is_string :: "jsval \<Rightarrow> bool" where
  "is_string (JStr s) = True"
| "is_string v = False"





text \<open>The next sequential identifier: the greatest stored one plus one, or one.\<close>

definition proximo_id :: "tables \<Rightarrow> nat" where
  "proximo_id t = (if pratos t = [] then 1 else Max (set (map id_prato (pratos t))) + 1)"















section \<open>Properties of the metrics aggregator\<close>

subsection \<open>Rounding\<close>

lemma round_half_even_error: "\<bar>of_int (round_half_even z) - z\<bar> \<le> 1 / 2"
proof -
  define r where "r = z - of_int \<lfloor>z\<rfloor>"
  have r: "0 \<le> r" "r < 1"
    unfolding r_def by linarith+
  have z: "z = of_int \<lfloor>z\<rfloor> + r"
    by (simp add: r_def)
  consider "r < 1 / 2" | "1 / 2 < r" | "r = 1 / 2" by linarith
  then show ?thesis
  proof cases
    case 1
    then have "round_half_even z = \<lfloor>z\<rfloor>"
      by (simp add: round_half_even_def Let_def r_def)
    with 1 r show ?thesis by (simp add: r_def)
  next
    case 2
    then have "round_half_even z = \<lfloor>z\<rfloor> + 1"
      by (simp add: round_half_even_def Let_def r_def)
    with 2 r show ?thesis by (simp add: r_def)
  next
    case 3
    then have "round_half_even z = \<lfloor>z\<rfloor> \<or> round_half_even z = \<lfloor>z\<rfloor> + 1"
      by (simp add: round_half_even_def Let_def r_def)
    with 3 show ?thesis by (auto simp: r_def)
  qed
qed

lemma ilog2_le:
  assumes "0 < x"
  shows "2 powi (ilog2 x) \<le> x"
proof -
  obtain p q where pq: "quotient_of x = (p, q)" by (cases "quotient_of x")
  then have q: "0 < q" and x: "x = of_int p / of_int q"
    using quotient_of_denom_pos quotient_of_div by auto
  with assms have p: "0 < p"
    by (simp add: zero_less_divide_iff)
  let ?k = "bitlen p - bitlen q"
  show ?thesis
  proof (cases "2 powi ?k \<le> x")
    case True
    then show ?thesis by (simp add: ilog2_def pq)
  next
    case False
    have bp: "2 ^ nat (bitlen p - 1) \<le> p" and bq: "q < 2 ^ nat (bitlen q)"
      using bitlen_bounds [OF p] bitlen_bounds [OF q] by auto
    have b1: "1 \<le> bitlen p" "1 \<le> bitlen q"
      using p q by (auto simp: bitlen_alt_def)
    have "(2::rat) powi (?k - 1) = 2 powi (bitlen p - 1) / 2 powi (bitlen q)"
      by (simp add: power_int_diff)
    also have "\<dots> = 2 ^ nat (bitlen p - 1) / 2 ^ nat (bitlen q)"
      using b1 by (simp add: power_int_def)
    also have "\<dots> \<le> of_int p / 2 ^ nat (bitlen q)"
    proof -
      have "(2::rat) ^ nat (bitlen p - 1) \<le> of_int p"
        using bp by (metis of_int_le_iff of_int_numeral of_int_power)
      then show ?thesis by (simp add: divide_right_mono)
    qed
    also have "\<dots> \<le> of_int p / of_int q"
    proof -
      have "(of_int q :: rat) \<le> 2 ^ nat (bitlen q)"
        using bq by (metis less_imp_le of_int_le_iff of_int_numeral of_int_power)
      moreover have "(0::rat) < of_int q" using q by simp
      moreover have "(0::rat) \<le> of_int p" using p by simp
      ultimately show ?thesis by (simp add: frac_le)
    qed
    finally have "2 powi (?k - 1) \<le> x" by (simp add: x)
    with False show ?thesis by (simp add: ilog2_def pq)
  qed
qed

lemma fl_round53: "fl x = round53 x"
proof -
  obtain p q where pq: "quotient_of x = (p, q)" by (cases "quotient_of x")
  then have "x = of_int p / of_int q" by (rule quotient_of_div)
  with pq show ?thesis by (simp add: fl_def)
qed

lemma fl_error:
  "\<bar>fl x - x\<bar> \<le> ulp_half * \<bar>x\<bar>"
proof (cases "x = 0")
  case True
  then show ?thesis by (simp add: fl_round53 round53_def)
next
  case False
  define q :: rat where "q = 2 powi (ilog2 \<bar>x\<bar> - 52)"
  define r :: rat where "r = of_int (round_half_even (\<bar>x\<bar> / q))"
  have q: "0 < q" by (simp add: q_def)
  have f: "fl x = sgn x * r * q"
    using False by (simp add: fl_round53 round53_def Let_def q_def r_def)
  have sx: "sgn x * \<bar>x\<bar> = x" by (rule sgn_mult_abs)
  have "fl x - x = sgn x * r * q - sgn x * \<bar>x\<bar>"
    by (simp only: f sx)
  also have "\<dots> = sgn x * (r * q - \<bar>x\<bar>)"
    by (simp only: right_diff_distrib mult.assoc)
  finally have "\<bar>fl x - x\<bar> = \<bar>sgn x\<bar> * \<bar>r * q - \<bar>x\<bar>\<bar>"
    by (simp only: abs_mult)
  also have "\<dots> = \<bar>r * q - \<bar>x\<bar>\<bar>"
    using False by (simp only: abs_sgn_eq if_False mult_1)
  also have "\<dots> = \<bar>r - \<bar>x\<bar> / q\<bar> * q"
  proof -
    have "r * q - \<bar>x\<bar> = (r - \<bar>x\<bar> / q) * q"
      using q by (simp add: left_diff_distrib)
    moreover have "\<bar>q\<bar> = q" using q by simp
    ultimately show ?thesis by (simp only: abs_mult)
  qed
  also have "\<dots> \<le> 1 / 2 * q"
    using round_half_even_error [of "\<bar>x\<bar> / q"] q
    unfolding r_def by (rule mult_right_mono [OF _ less_imp_le])
  also have "\<dots> = ulp_half * 2 powi (ilog2 \<bar>x\<bar>)"
    by (simp add: q_def power_int_diff ulp_half_def)
  also have "\<dots> \<le> ulp_half * \<bar>x\<bar>"
  proof (rule mult_left_mono)
    show "2 powi ilog2 \<bar>x\<bar> \<le> \<bar>x\<bar>" using False by (intro ilog2_le) simp
    show "0 \<le> ulp_half" by (simp add: ulp_half_def)
  qed
  finally show ?thesis .
qed

lemma fl_bounds:
  assumes "0 \<le> x"
  shows "(1 - ulp_half) * x \<le> fl x" and "fl x \<le> (1 + ulp_half) * x"
proof -
  from assms fl_error [of x] have "\<bar>fl x - x\<bar> \<le> ulp_half * x" by simp
  then have "- (ulp_half * x) \<le> fl x - x" "fl x - x \<le> ulp_half * x"
    by (simp_all only: abs_le_iff minus_diff_eq) linarith+
  then show "(1 - ulp_half) * x \<le> fl x" and "fl x \<le> (1 + ulp_half) * x"
    by (simp_all add: left_diff_distrib distrib_right)
qed

lemma ulp_half_bounds: "0 < ulp_half" "ulp_half < 1"
  by (simp_all add: ulp_half_def)

lemma fl_nonneg:
  assumes "0 \<le> x"
  shows "0 \<le> fl x"
proof -
  have "0 \<le> (1 - ulp_half) * x"
    using assms ulp_half_bounds by simp
  with fl_bounds(1) [OF assms] show ?thesis by linarith
qed

lemma fl_lower:
  assumes "0 \<le> l" and "l \<le> x"
  shows "(1 - ulp_half) * l \<le> fl x"
proof -
  from assms have x: "0 \<le> x" by linarith
  have "(1 - ulp_half) * l \<le> (1 - ulp_half) * x"
    using assms(2) ulp_half_bounds by (intro mult_left_mono) simp_all
  with fl_bounds(1) [OF x] show ?thesis by linarith
qed

lemma fl_upper:
  assumes "0 \<le> x" and "x \<le> h"
  shows "fl x \<le> (1 + ulp_half) * h"
proof -
  have "(1 + ulp_half) * x \<le> (1 + ulp_half) * h"
    using assms(2) ulp_half_bounds by (intro mult_left_mono) simp_all
  with fl_bounds(2) [OF assms(1)] show ?thesis by linarith
qed

text \<open>One update of the running average, on the product \<open>x\<close> of the average and the count.\<close>

lemma update_bounds:
  fixes x d S L U n1 :: rat
  assumes d: "0 \<le> d" and S: "0 \<le> S" and L: "0 \<le> L" "L \<le> 1" and U: "1 \<le> U"
    and x: "L * S \<le> x" "x \<le> U * S" and n1: "0 < n1"
  shows "(1 - ulp_half) ^ 3 * L * (S + d) \<le> fl (fl (fl x + d) / n1) * n1"
    and "fl (fl (fl x + d) / n1) * n1 \<le> (1 + ulp_half) ^ 3 * U * (S + d)"
proof -
  let ?u = ulp_half
  have u: "0 \<le> 1 - ?u" "1 - ?u \<le> 1" "1 \<le> 1 + ?u" "0 \<le> 1 + ?u"
    using ulp_half_bounds by simp_all
  have LS: "0 \<le> L * S" using L S by simp
  then have x0: "0 \<le> x" using x by linarith
  have US: "0 \<le> U * S" using U S by simp
  have Sd: "0 \<le> S + d" using S d by simp
  \<comment> \<open>the product, rounded\<close>
  have p1: "(1 - ?u) * (L * S) \<le> fl x" using LS x(1) by (rule fl_lower)
  have p2: "fl x \<le> (1 + ?u) * (U * S)" using x0 x(2) by (rule fl_upper)
  have p0: "0 \<le> fl x" using x0 by (rule fl_nonneg)
  \<comment> \<open>the sum\<close>
  have "(1 - ?u) * L \<le> 1 * 1"
    using u(1,2) L by (intro mult_mono) simp_all
  then have c1: "(1 - ?u) * L \<le> 1" by simp
  have c1n: "0 \<le> (1 - ?u) * L" using u L by simp
  have "1 * 1 \<le> (1 + ?u) * U"
    using u(3) U by (intro mult_mono) simp_all
  then have c2: "1 \<le> (1 + ?u) * U" by simp
  have "(1 - ?u) * L * d \<le> 1 * d"
    using c1 d by (rule mult_right_mono)
  then have s1: "(1 - ?u) * L * (S + d) \<le> fl x + d"
    using p1 by (simp add: distrib_left mult.assoc)
  have "1 * d \<le> (1 + ?u) * U * d"
    using c2 d by (rule mult_right_mono)
  then have s2: "fl x + d \<le> (1 + ?u) * U * (S + d)"
    using p2 by (simp add: distrib_left mult.assoc)
  have s0: "0 \<le> fl x + d" using p0 d by simp
  have l0: "0 \<le> (1 - ?u) * L * (S + d)" using c1n Sd by simp
  \<comment> \<open>the sum, rounded\<close>
  have r1: "(1 - ?u) * ((1 - ?u) * L * (S + d)) \<le> fl (fl x + d)"
    using l0 s1 by (rule fl_lower)
  have r2: "fl (fl x + d) \<le> (1 + ?u) * ((1 + ?u) * U * (S + d))"
    using s0 s2 by (rule fl_upper)
  have r0: "0 \<le> fl (fl x + d)" using s0 by (rule fl_nonneg)
  \<comment> \<open>the quotient, rounded\<close>
  let ?t = "fl (fl x + d) / n1"
  have t0: "0 \<le> ?t" using r0 n1 by simp
  have tn: "?t * n1 = fl (fl x + d)" using n1 by simp
  have q1: "(1 - ?u) * ?t \<le> fl ?t" using fl_bounds(1) [OF t0] .
  have q2: "fl ?t \<le> (1 + ?u) * ?t" using fl_bounds(2) [OF t0] .
  have "(1 - ?u) * ?t * n1 \<le> fl ?t * n1"
    using q1 n1 by (intro mult_right_mono) simp_all
  then have a1: "(1 - ?u) * fl (fl x + d) \<le> fl ?t * n1"
    by (simp only: mult.assoc tn)
  have "fl ?t * n1 \<le> (1 + ?u) * ?t * n1"
    using q2 n1 by (intro mult_right_mono) simp_all
  then have a2: "fl ?t * n1 \<le> (1 + ?u) * fl (fl x + d)"
    by (simp only: mult.assoc tn)
  have "(1 - ?u) * ((1 - ?u) * ((1 - ?u) * L * (S + d))) \<le> (1 - ?u) * fl (fl x + d)"
    using r1 u(1) by (rule mult_left_mono)
  with a1 show "(1 - ?u) ^ 3 * L * (S + d) \<le> fl ?t * n1"
    by (simp add: power3_eq_cube mult.assoc)
  have "(1 + ?u) * fl (fl x + d) \<le> (1 + ?u) * ((1 + ?u) * ((1 + ?u) * U * (S + d)))"
    using r2 u(4) by (rule mult_left_mono)
  with a2 show "fl ?t * n1 \<le> (1 + ?u) ^ 3 * U * (S + d)"
    by (simp add: power3_eq_cube mult.assoc)
qed


subsection \<open>The cumulative mean\<close>

lemma counter_succ_nonzero: "(of_nat n :: rat) + 1 \<noteq> 0"
proof -
  have "(0::rat) \<le> of_nat n" by simp
  then show ?thesis by linarith
qed

lemma serve_total: "req_total (requests (serve m s)) = req_total (requests m) + 1"
  by (simp add: serve_def metricsCollector_finish_def metricsCollector_start_def
      updatePerformanceMetrics_def Let_def)

lemma serve_average:
  assumes "averageResponseTime (performance m) = Num a"
  shows "averageResponseTime (performance (serve m s)) =
         Num (fl (fl (fl (a * of_nat (req_total (requests m))) + of_int (served_ms s))
                  / (of_nat (req_total (requests m)) + 1)))"
  using assms counter_succ_nonzero [of "req_total (requests m)"]
  by (simp add: serve_def metricsCollector_finish_def metricsCollector_start_def
      updatePerformanceMetrics_def Let_def add.commute)

lemma serve_all_bounds:
  assumes "averageResponseTime (performance m) = Num a"
    and "0 \<le> S" and "0 \<le> L" and "L \<le> 1" and "1 \<le> U"
    and "L * S \<le> a * of_nat (req_total (requests m))"
    and "a * of_nat (req_total (requests m)) \<le> U * S"
    and "\<forall>s \<in> set ss. 0 \<le> served_ms s"
  shows "\<exists>b. averageResponseTime (performance (serve_all m ss)) = Num b \<and>
           (1 - ulp_half) ^ (3 * length ss) * L * (S + of_int (sum_list (map served_ms ss)))
             \<le> b * of_nat (req_total (requests m) + length ss) \<and>
           b * of_nat (req_total (requests m) + length ss)
             \<le> (1 + ulp_half) ^ (3 * length ss) * U * (S + of_int (sum_list (map served_ms ss)))"
  using assms
proof (induction ss arbitrary: m a S L U)
  case Nil
  then show ?case by (simp add: serve_all_def)
next
  case (Cons s ss)
  let ?n = "req_total (requests m)"
  let ?d = "of_int (served_ms s) :: rat"
  let ?a' = "fl (fl (fl (a * of_nat ?n) + ?d) / (of_nat ?n + 1))"
  let ?L' = "(1 - ulp_half) ^ 3 * L"
  let ?U' = "(1 + ulp_half) ^ 3 * U"
  let ?rest = "of_int (sum_list (map served_ms ss)) :: rat"
  have d: "0 \<le> ?d" using Cons.prems(8) by simp
  have n1: "(0::rat) < of_nat ?n + 1"
    by (metis add.commute of_nat_Suc of_nat_0_less_iff zero_less_Suc)
  have step: "averageResponseTime (performance (serve m s)) = Num ?a'"
    using Cons.prems(1) by (rule serve_average)
  have b: "?L' * (S + ?d) \<le> ?a' * (of_nat ?n + 1)" "?a' * (of_nat ?n + 1) \<le> ?U' * (S + ?d)"
    using update_bounds [OF d Cons.prems(2,3,4,5,6,7) n1] by simp_all
  have u: "0 \<le> 1 - ulp_half" "1 - ulp_half \<le> 1" "1 \<le> 1 + ulp_half"
    using ulp_half_bounds by simp_all
  have L': "0 \<le> ?L'" "?L' \<le> 1"
  proof -
    show "0 \<le> ?L'" using u(1) Cons.prems(3) by simp
    have "(1 - ulp_half) ^ 3 \<le> 1" using u(1,2) by (rule power_le_one)
    then have "?L' \<le> 1 * 1"
      using Cons.prems(3,4) u(1) by (intro mult_mono) simp_all
    then show "?L' \<le> 1" by simp
  qed
  have U': "1 \<le> ?U'"
  proof -
    have "1 \<le> (1 + ulp_half) ^ 3" using u(3) by (rule one_le_power)
    then have "1 * 1 \<le> ?U'"
      using Cons.prems(5) u(3) by (intro mult_mono) simp_all
    then show ?thesis by simp
  qed
  have S': "0 \<le> S + ?d" using Cons.prems(2) d by simp
  have t: "req_total (requests (serve m s)) = ?n + 1" by (rule serve_total)
  have b': "?L' * (S + ?d) \<le> ?a' * of_nat (req_total (requests (serve m s)))"
    "?a' * of_nat (req_total (requests (serve m s))) \<le> ?U' * (S + ?d)"
    using b by (simp_all only: t of_nat_add of_nat_1)
  have rest: "\<forall>s \<in> set ss. 0 \<le> served_ms s" using Cons.prems(8) by simp
  from Cons.IH [OF step S' L' U' b' rest] obtain c where
    c: "averageResponseTime (performance (serve_all (serve m s) ss)) = Num c"
    and lo: "(1 - ulp_half) ^ (3 * length ss) * ?L' * (S + ?d + ?rest)
             \<le> c * of_nat (req_total (requests (serve m s)) + length ss)"
    and hi: "c * of_nat (req_total (requests (serve m s)) + length ss)
             \<le> (1 + ulp_half) ^ (3 * length ss) * ?U' * (S + ?d + ?rest)"
    by blast
  have e: "serve_all m (s # ss) = serve_all (serve m s) ss"
    by (simp add: serve_all_def)
  have k: "req_total (requests (serve m s)) + length ss = ?n + length (s # ss)"
    by (simp add: t)
  have sm: "S + ?d + ?rest = S + of_int (sum_list (map served_ms (s # ss)))"
    by simp
  have pl: "(1 - ulp_half) ^ (3 * length ss) * ?L' = (1 - ulp_half) ^ (3 * length (s # ss)) * L"
    by (simp add: power_add mult.commute mult.left_commute)
  have pu: "(1 + ulp_half) ^ (3 * length ss) * ?U' = (1 + ulp_half) ^ (3 * length (s # ss)) * U"
    by (simp add: power_add mult.commute mult.left_commute)
  from c lo hi show ?case
    unfolding e k sm pl pu by blast
qed

text \<open>
  Claim C1, as amended. Starting from the initial metrics, after any non-empty sequence of
  requests with durations that are not negative, each recorded from start to finish before
  the next one starts, the running average response time is the arithmetic mean of the
  durations up to the rounding of the three operations of each update: it lies between
  the mean times \<open>(1 - 2^-53)^(3N)\<close> and the mean times \<open>(1 + 2^-53)^(3N)\<close>.
\<close>

theorem running_average_near_mean:
  assumes "ss \<noteq> []" and "\<forall>s \<in> set ss. 0 \<le> served_ms s"
  shows "\<exists>a. averageResponseTime (performance (serve_all initial_metrics ss)) = Num a \<and>
           (1 - ulp_half) ^ (3 * length ss) * mean_ms ss \<le> a \<and>
           a \<le> (1 + ulp_half) ^ (3 * length ss) * mean_ms ss"
proof -
  have i: "averageResponseTime (performance initial_metrics) = Num 0"
    "req_total (requests initial_metrics) = 0"
    by (simp_all add: initial_metrics_def initial_performance_def initial_requests_def)
  have "\<exists>b. averageResponseTime (performance (serve_all initial_metrics ss)) = Num b \<and>
           (1 - ulp_half) ^ (3 * length ss) * 1 * (0 + of_int (sum_list (map served_ms ss)))
             \<le> b * of_nat (req_total (requests initial_metrics) + length ss) \<and>
           b * of_nat (req_total (requests initial_metrics) + length ss)
             \<le> (1 + ulp_half) ^ (3 * length ss) * 1 * (0 + of_int (sum_list (map served_ms ss)))"
    using i(1) _ _ _ _ _ _ assms(2) by (rule serve_all_bounds) (simp_all add: i(2))
  then obtain b where
    b: "averageResponseTime (performance (serve_all initial_metrics ss)) = Num b"
    and lo: "(1 - ulp_half) ^ (3 * length ss) * of_int (sum_list (map served_ms ss))
             \<le> b * of_nat (length ss)"
    and hi: "b * of_nat (length ss)
             \<le> (1 + ulp_half) ^ (3 * length ss) * of_int (sum_list (map served_ms ss))"
    by (auto simp: i(2))
  have len: "(0::rat) < of_nat (length ss)"
    using assms(1) by simp
  have "(1 - ulp_half) ^ (3 * length ss) * mean_ms ss \<le> b"
    using lo len by (simp add: mean_ms_def pos_divide_le_eq)
  moreover have "b \<le> (1 + ulp_half) ^ (3 * length ss) * mean_ms ss"
    using hi len by (simp add: mean_ms_def pos_le_divide_eq)
  ultimately show ?thesis using b by blast
qed

theorem running_average_near_mean_witness:
  "[sample_served 250] \<noteq> [] \<and> 0 \<le> served_ms (sample_served 250) \<and>
   averageResponseTime (performance (serve_all initial_metrics [sample_served 250])) = Num 250 \<and>
   mean_ms [sample_served 250] = 250"
proof -
  have v: "averageResponseTime (performance (serve_all initial_metrics [sample_served 250]))
           = Num 250"
    by code_simp
  have m: "mean_ms [sample_served 250] = 250"
    by (simp add: mean_ms_def sample_served_def)
  have h: "[sample_served 250] \<noteq> []" "\<forall>s \<in> set [sample_served 250]. 0 \<le> served_ms s"
    by (simp_all add: sample_served_def)
  from running_average_near_mean [OF h] v m h show ?thesis
    by (simp add: sample_served_def)
qed

text \<open>
  Claim C1, as stated, fails: after the eight durations 122, 969, 1883, 711, 1464, 147, 2282
  and 414, whose mean is 999, the running average is \<open>999 + 2^-43\<close>, the next double
  above 999.
\<close>

theorem running_average_not_mean:
  "averageResponseTime (performance (serve_all initial_metrics sample_run))
     = Num (999 + 1 / 2 ^ 43) \<and>
   mean_ms sample_run = 999"
  by code_simp

subsection \<open>The health verdict\<close>

lemma error_rate_js:
  "js_div (Num (of_nat (err_total (errors m)))) (Num (of_nat (max (req_total (requests m)) 1)))
   = error_rate m"
  by (simp only: error_rate_def)

lemma critical_issues:
  "push_if c (''High memory usage'')
     (push_if b (''High error rate'') (push_if a (''High average response time'') []))
   = map fst (filter snd [(''High average response time'', a), (''High error rate'', b),
                          (''High memory usage'', c)])"
  by (simp add: push_if_def)

lemma triggered_empty:
  "(triggered env m = []) =
   (\<not> (response_time_high m \<or> error_rate_high m \<or> memory_high (memoryUsage env)))"
  by (simp add: triggered_def)

lemma getHealthStatus_issues:
  "issues (getHealthStatus env m) =
   (if triggered env m = [] then None else Some (triggered env m))"
  unfolding getHealthStatus_def Let_def error_rate_js critical_issues
  by (simp add: triggered_def response_time_high_def error_rate_high_def memory_high_def
      heap_ratio_def)

lemma getHealthStatus_status:
  "status (getHealthStatus env m) = (if triggered env m = [] then ''OK'' else ''WARNING'')"
  unfolding getHealthStatus_def Let_def error_rate_js critical_issues
  by (simp add: triggered_def response_time_high_def error_rate_high_def memory_high_def
      heap_ratio_def)

text \<open>
  Claim C2. The overall status of the health report is WARNING exactly when at least one of
  the three threshold conditions holds (average response time above 2000 ms, error rate
  above 0.05, heap ratio above 0.9) and OK exactly when none does; the report carries the
  list of the triggered conditions, in the order they are tested, when the status is
  WARNING, and no such list otherwise.
\<close>

theorem health_verdict:
  "(status (getHealthStatus env m) = ''WARNING'') =
     (response_time_high m \<or> error_rate_high m \<or> memory_high (memoryUsage env))
   \<and> (status (getHealthStatus env m) = ''OK'') =
     (\<not> (response_time_high m \<or> error_rate_high m \<or> memory_high (memoryUsage env)))
   \<and> issues (getHealthStatus env m) =
     (if response_time_high m \<or> error_rate_high m \<or> memory_high (memoryUsage env)
      then Some (triggered env m) else None)"
proof -
  let ?any = "response_time_high m \<or> error_rate_high m \<or> memory_high (memoryUsage env)"
  have e: "(triggered env m = []) = (\<not> ?any)" by (rule triggered_empty)
  have s: "status (getHealthStatus env m) = (if ?any then ''WARNING'' else ''OK'')"
    unfolding getHealthStatus_status e by simp
  have i: "issues (getHealthStatus env m) = (if ?any then Some (triggered env m) else None)"
    unfolding getHealthStatus_issues e by simp
  show ?thesis unfolding s i by simp
qed

theorem health_verdict_witness:
  "status (getHealthStatus (sample_env 95 100) initial_metrics) = ''WARNING'' \<and>
   issues (getHealthStatus (sample_env 95 100) initial_metrics) = Some [''High memory usage'']"
proof -
  have c: "\<not> response_time_high initial_metrics" "\<not> error_rate_high initial_metrics"
    "memory_high (memoryUsage (sample_env 95 100))"
    by code_simp+
  from health_verdict [of "sample_env 95 100" initial_metrics] c show ?thesis
    by (simp add: triggered_def)
qed

subsection \<open>Pruning of the error history\<close>

text \<open>
  Claim C7. After \<open>errorMetrics\<close> has recorded an error, every record left in the error
  history is less than 24 hours older than the clock reading used for pruning, and, the
  clock not having gone backwards between the two readings, less than 24 hours older than
  the timestamp given to the inserted record.
\<close>

theorem error_history_pruned:
  assumes "e \<in> set (last24h (errors (errorMetrics m err req now_entry now_prune)))"
  shows "now_prune - timestamp e < day_ms \<and>
         (now_entry \<le> now_prune \<longrightarrow> now_entry - timestamp e < day_ms)"
proof -
  have "last24h (errors (errorMetrics m err req now_entry now_prune)) =
        filter (\<lambda>x. now_prune - day_ms < timestamp x)
          (last24h (errors (errorMetrics m err req now_entry now_prune)))"
    by (simp add: errorMetrics_def Let_def del: filter_append filter.simps)
  with assms have "e \<in> set (filter (\<lambda>x. now_prune - day_ms < timestamp x)
          (last24h (errors (errorMetrics m err req now_entry now_prune))))"
    by simp
  then have "now_prune - day_ms < timestamp e"
    by (simp only: set_filter mem_Collect_eq)
  then show ?thesis by linarith
qed


theorem error_history_pruned_witness:
  "last24h (errors (errorMetrics sample_history sample_error sample_request 100000000 100000001))
     = [sample_recorded] \<and>
   100000001 - timestamp sample_recorded < day_ms \<and>
   100000000 - timestamp sample_recorded < day_ms"
proof -
  have l: "last24h (errors
             (errorMetrics sample_history sample_error sample_request 100000000 100000001))
           = [sample_recorded]"
    by (simp add: errorMetrics_def Let_def sample_history_def sample_error_def
        sample_request_def sample_recorded_def sample_entry_def initial_metrics_def
        initial_errors_def day_ms_def)
  then have "sample_recorded \<in> set (last24h (errors
             (errorMetrics sample_history sample_error sample_request 100000000 100000001)))"
    by simp
  from error_history_pruned [OF this] l show ?thesis by simp
qed

subsection \<open>Snapshots\<close>

lemma view_initial: "view initial_heap metrics_at = Some initial_metrics"
  by (simp add: view_def initial_heap_def metrics_at_def initial_metrics_def)

lemma heap_ok_initial: "heap_ok initial_heap"
  by (auto simp: heap_ok_def view_initial) (simp add: initial_heap_def)

lemma view_SomeD:
  assumes "view h r = Some m"
  obtains t where "as_top (cells h r) = Some t"
    and "as_requests (cells h (t SRequests)) = Some (requests m)"
    and "as_performance (cells h (t SPerformance)) = Some (performance m)"
    and "as_errors (cells h (t SErrors)) = Some (errors m)"
    and "as_database (cells h (t SDatabase)) = Some (database m)"
    and "as_security (cells h (t SSecurity)) = Some (security m)"
  using assms by (auto simp: view_def split: Option.bind_splits)

lemma view_SomeI:
  assumes "as_top (cells h r) = Some t"
    and "as_requests (cells h (t SRequests)) = Some a"
    and "as_performance (cells h (t SPerformance)) = Some b"
    and "as_errors (cells h (t SErrors)) = Some c"
    and "as_database (cells h (t SDatabase)) = Some d"
    and "as_security (cells h (t SSecurity)) = Some e"
  shows "view h r = Some \<lparr>requests = a, performance = b, errors = c, database = d, security = e\<rparr>"
  using assms by (simp add: view_def)

lemma as_top_Some: "as_top x = Some t \<Longrightarrow> \<exists>y. x = Some (Top t y)"
  by (cases x rule: as_top.cases) auto
lemma as_requests_Some: "as_requests x = Some a \<Longrightarrow> x = Some (Requests a)"
  by (cases x rule: as_requests.cases) auto
lemma as_performance_Some: "as_performance x = Some a \<Longrightarrow> x = Some (Performance a)"
  by (cases x rule: as_performance.cases) auto
lemma as_errors_Some: "as_errors x = Some a \<Longrightarrow> x = Some (Errors a)"
  by (cases x rule: as_errors.cases) auto
lemma as_database_Some: "as_database x = Some a \<Longrightarrow> x = Some (Database a)"
  by (cases x rule: as_database.cases) auto
lemma as_security_Some: "as_security x = Some a \<Longrightarrow> x = Some (Security a)"
  by (cases x rule: as_security.cases) auto

text \<open>The shape of a store in which the object at \<open>r\<close> shows counters.\<close>

lemma view_cells:
  assumes "view h r = Some m"
  obtains t x where "cells h r = Some (Top t x)"
    and "cells h (t SRequests) = Some (Requests (requests m))"
    and "cells h (t SPerformance) = Some (Performance (performance m))"
    and "cells h (t SErrors) = Some (Errors (errors m))"
    and "cells h (t SDatabase) = Some (Database (database m))"
    and "cells h (t SSecurity) = Some (Security (security m))"
proof -
  from assms obtain t where t: "as_top (cells h r) = Some t"
    and s: "as_requests (cells h (t SRequests)) = Some (requests m)"
    "as_performance (cells h (t SPerformance)) = Some (performance m)"
    "as_errors (cells h (t SErrors)) = Some (errors m)"
    "as_database (cells h (t SDatabase)) = Some (database m)"
    "as_security (cells h (t SSecurity)) = Some (security m)"
    by (rule view_SomeD)
  from as_top_Some [OF t] obtain x where "cells h r = Some (Top t x)" by blast
  then show thesis
    using s as_requests_Some as_performance_Some as_errors_Some as_database_Some
      as_security_Some that by blast
qed

lemma getMetrics_alloc:
  assumes ok: "heap_ok h" and v: "view h metrics_at = Some m"
  obtains h1 where "getMetrics env h = Some (fresh h, h1)"
    and "fresh h \<noteq> metrics_at"
    and "view h1 metrics_at = Some m"
    and "view h1 (fresh h) = Some m"
    and "heap_ok h1"
    and "as_top (cells h1 (fresh h)) = as_top (cells h1 metrics_at)"
proof -
  from v obtain t x where top: "cells h metrics_at = Some (Top t x)"
    and s: "cells h (t SRequests) = Some (Requests (requests m))"
    "cells h (t SPerformance) = Some (Performance (performance m))"
    "cells h (t SErrors) = Some (Errors (errors m))"
    "cells h (t SDatabase) = Some (Database (database m))"
    "cells h (t SSecurity) = Some (Security (security m))"
    by (rule view_cells)
  from ok have free: "cells h (fresh h) = None" and above: "\<And>r. fresh h \<le> r \<Longrightarrow> cells h r = None"
    by (simp_all add: heap_ok_def)
  let ?x = "Top t (Some \<lparr>snap_timestamp = now_iso env, snap_uptime = uptime env,
                         snap_memory = memoryUsage env, snap_cpu = cpuUsage env\<rparr>)"
  let ?h1 = "h\<lparr>cells := (cells h)(fresh h \<mapsto> ?x), fresh := fresh h + 1\<rparr>"
  have g: "getMetrics env h = Some (fresh h, ?h1)"
    using top by (simp add: getMetrics_def)
  have ne: "fresh h \<noteq> metrics_at" "fresh h \<noteq> t SRequests" "fresh h \<noteq> t SPerformance"
    "fresh h \<noteq> t SErrors" "fresh h \<noteq> t SDatabase" "fresh h \<noteq> t SSecurity"
    using free top s by auto
  have v1: "view ?h1 metrics_at = Some m"
    using top s ne by (simp add: view_def)
  have v2: "view ?h1 (fresh h) = Some m"
    using top s ne by (simp add: view_def)
  have k: "heap_ok ?h1"
    using v1 above by (simp add: heap_ok_def)
  have "as_top (cells ?h1 (fresh h)) = as_top (cells ?h1 metrics_at)"
    using top ne by simp
  with g ne(1) v1 v2 k show thesis by (rule that)
qed

lemma mutate_shared:
  assumes vm: "view h metrics_at = Some m" and vs: "view h snap = Some m"
    and same: "as_top (cells h snap) = as_top (cells h metrics_at)"
    and ne: "snap \<noteq> metrics_at"
  shows "view (mutate snap h mu) metrics_at = Some (written mu m)"
proof -
  from vm obtain t x where top: "cells h metrics_at = Some (Top t x)"
    and s: "cells h (t SRequests) = Some (Requests (requests m))"
    "cells h (t SPerformance) = Some (Performance (performance m))"
    "cells h (t SErrors) = Some (Errors (errors m))"
    "cells h (t SDatabase) = Some (Database (database m))"
    "cells h (t SSecurity) = Some (Security (security m))"
    by (rule view_cells)
  from same top obtain y where snap: "cells h snap = Some (Top t y)"
    using as_top_Some [of "cells h snap" t] by auto
  have d: "t SRequests \<noteq> metrics_at" "t SPerformance \<noteq> metrics_at" "t SErrors \<noteq> metrics_at"
    "t SDatabase \<noteq> metrics_at" "t SSecurity \<noteq> metrics_at"
    "t SRequests \<noteq> snap" "t SPerformance \<noteq> snap" "t SErrors \<noteq> snap"
    "t SDatabase \<noteq> snap" "t SSecurity \<noteq> snap"
    "t SRequests \<noteq> t SPerformance" "t SRequests \<noteq> t SErrors" "t SRequests \<noteq> t SDatabase"
    "t SRequests \<noteq> t SSecurity" "t SPerformance \<noteq> t SErrors" "t SPerformance \<noteq> t SDatabase"
    "t SPerformance \<noteq> t SSecurity" "t SErrors \<noteq> t SDatabase" "t SErrors \<noteq> t SSecurity"
    "t SDatabase \<noteq> t SSecurity"
    using top snap s by auto
  show ?thesis
  proof (cases mu)
    case (Assign n r')
    then show ?thesis
      using top snap s d ne by (simp add: view_def write_cell_def)
  next
    case (InRequests f)
    then show ?thesis
      using top snap s d ne by (simp add: view_def write_cell_def)
  next
    case (InPerformance f)
    then show ?thesis
      using top snap s d ne by (simp add: view_def write_cell_def)
  next
    case (InErrors f)
    then show ?thesis
      using top snap s d ne by (simp add: view_def write_cell_def)
  next
    case (InDatabase f)
    then show ?thesis
      using top snap s d ne by (simp add: view_def write_cell_def)
  next
    case (InSecurity f)
    then show ?thesis
      using top snap s d ne by (simp add: view_def write_cell_def)
  qed
qed

lemma mutate_fresh: "fresh (mutate snap h mu) = fresh h"
  by (cases mu) (auto simp: write_cell_def split: option.splits obj.splits)

lemma mutate_unallocated:
  assumes "cells h r = None"
  shows "cells (mutate snap h mu) r = None"
  using assms
  by (cases mu) (auto simp: write_cell_def split: option.splits obj.splits
      dest!: as_top_Some as_requests_Some as_performance_Some as_errors_Some
        as_database_Some as_security_Some)

lemma mutate_heap_ok:
  assumes "heap_ok h" and "view (mutate snap h mu) metrics_at = Some m'"
  shows "heap_ok (mutate snap h mu)"
  using assms by (simp add: heap_ok_def mutate_fresh mutate_unallocated)

lemma assign_elsewhere:
  assumes "r \<noteq> snap"
  shows "cells (mutate snap h (Assign n r')) r = cells h r"
  using assms by (auto simp: write_cell_def split: option.splits obj.splits)

lemma assigns_elsewhere:
  assumes "list_all is_assign mus" and "r \<noteq> snap"
  shows "cells (foldl (mutate snap) h mus) r = cells h r"
  using assms
proof (induction mus arbitrary: h)
  case Nil
  then show ?case by simp
next
  case (Cons mu mus)
  from Cons.prems obtain n r' where mu: "mu = Assign n r'"
    by (cases mu) auto
  from Cons show ?case
    by (simp add: mu assign_elsewhere del: mutate.simps)
qed

lemma view_elsewhere:
  assumes v: "view h obj0 = Some m" and eq: "\<And>r. r \<noteq> snap \<Longrightarrow> cells h' r = cells h r"
    and ne: "snap \<noteq> obj0" and top: "cells h snap = Some (Top t x)"
  shows "view h' obj0 = Some m"
proof -
  from v obtain t' x' where c: "cells h obj0 = Some (Top t' x')"
    "cells h (t' SRequests) = Some (Requests (requests m))"
    "cells h (t' SPerformance) = Some (Performance (performance m))"
    "cells h (t' SErrors) = Some (Errors (errors m))"
    "cells h (t' SDatabase) = Some (Database (database m))"
    "cells h (t' SSecurity) = Some (Security (security m))"
    by (rule view_cells)
  have d: "obj0 \<noteq> snap" "t' SRequests \<noteq> snap" "t' SPerformance \<noteq> snap" "t' SErrors \<noteq> snap"
    "t' SDatabase \<noteq> snap" "t' SSecurity \<noteq> snap"
    using c top ne by auto
  show ?thesis
    using c d by (simp add: view_def eq)
qed

text \<open>
  Claim C3, as amended. \<open>getMetrics\<close> returns a new object that shows the current counters
  and whose five section properties refer to the aggregator's own section objects.
  Assigning section properties of the returned object, any number of times, leaves the
  aggregator's counters as they were; a write inside a section reached through the
  returned object is a write to the aggregator's section, and the next \<open>getMetrics\<close> shows
  it.
\<close>

theorem snapshot_shares_sections:
  assumes ok: "heap_ok h"
  shows "\<exists>snap h1 m. getMetrics env h = Some (snap, h1) \<and> view h metrics_at = Some m
           \<and> snap \<noteq> metrics_at \<and> view h1 metrics_at = Some m \<and> view h1 snap = Some m
           \<and> (list_all is_assign mus \<longrightarrow> view (foldl (mutate snap) h1 mus) metrics_at = Some m)
           \<and> view (mutate snap h1 mu) metrics_at = Some (written mu m)
           \<and> map_option (\<lambda>(snap2, h3). view h3 snap2) (getMetrics env2 (mutate snap h1 mu))
               = Some (Some (written mu m))"
proof -
  from ok obtain m where m: "view h metrics_at = Some m"
    by (auto simp: heap_ok_def)
  from ok m obtain h1 where g: "getMetrics env h = Some (fresh h, h1)"
    and ne: "fresh h \<noteq> metrics_at"
    and v1: "view h1 metrics_at = Some m"
    and v2: "view h1 (fresh h) = Some m"
    and ok1: "heap_ok h1"
    and same: "as_top (cells h1 (fresh h)) = as_top (cells h1 metrics_at)"
    by (rule getMetrics_alloc)
  let ?snap = "fresh h"
  have w: "view (mutate ?snap h1 mu) metrics_at = Some (written mu m)"
    using v1 v2 same ne by (rule mutate_shared)
  then have ok2: "heap_ok (mutate ?snap h1 mu)"
    using ok1 by (simp add: mutate_heap_ok)
  from ok2 w obtain h3 where g2: "getMetrics env2 (mutate ?snap h1 mu)
      = Some (fresh (mutate ?snap h1 mu), h3)"
    and v3: "view h3 (fresh (mutate ?snap h1 mu)) = Some (written mu m)"
    by (rule getMetrics_alloc)
  from v2 obtain t x where top: "cells h1 ?snap = Some (Top t x)"
    by (rule view_cells)
  have a: "view (foldl (mutate ?snap) h1 mus) metrics_at = Some m" if "list_all is_assign mus"
    using v1 assigns_elsewhere [OF that] ne top by (rule view_elsewhere)
  show ?thesis
    using g m ne v1 v2 a w g2 v3 by simp
qed

theorem snapshot_shares_sections_witness:
  "heap_ok initial_heap \<and>
   getMetrics (sample_env 50 100) initial_heap = Some (6, sample_snapshot_heap) \<and>
   view (mutate 6 sample_snapshot_heap (Assign SRequests 2)) metrics_at = Some initial_metrics \<and>
   view (mutate 6 sample_snapshot_heap (InRequests (set_total 999))) metrics_at
     = Some (initial_metrics\<lparr>requests := initial_requests\<lparr>req_total := 999\<rparr>\<rparr>)"
proof -
  have g: "getMetrics (sample_env 50 100) initial_heap = Some (6, sample_snapshot_heap)"
    by (simp add: getMetrics_def initial_heap_def sample_snapshot_heap_def sample_env_def
        metrics_at_def)
  from snapshot_shares_sections [OF heap_ok_initial, of "sample_env 50 100"
      "[Assign SRequests 2]" "InRequests (set_total 999)" "sample_env 50 100"]
  show ?thesis
    unfolding g by (simp add: heap_ok_initial view_initial set_total_def initial_metrics_def)
qed

text \<open>
  Claim C3, as stated, fails: on the initial metrics, setting \<open>requests.total\<close> to 999 in
  the object returned by \<open>getMetrics\<close> sets the aggregator's own total, which was 0, to
  999.
\<close>

theorem snapshot_not_deep_copy:
  "getMetrics (sample_env 50 100) initial_heap = Some (6, sample_snapshot_heap) \<and>
   map_option (req_total \<circ> requests) (view initial_heap metrics_at) = Some 0 \<and>
   map_option (req_total \<circ> requests)
     (view (mutate 6 sample_snapshot_heap (InRequests (set_total 999))) metrics_at) = Some 999"
  by (simp add: getMetrics_def initial_heap_def sample_snapshot_heap_def sample_env_def
      metrics_at_def view_def write_cell_def set_total_def initial_requests_def)

section \<open>Properties of the JSON-file database\<close>

subsection \<open>Identifiers and codes of new dishes\<close>

lemma digits_val_snoc: "digits_val (ds @ [c]) = 10 * digits_val ds + digit_val c"
  by (simp add: digits_val_def)

lemma digit_val_char: "d < 10 \<Longrightarrow> digit_val (digit_char d) = d"
  by (simp add: digit_val_def digit_char_def)

lemma digits_val_toString: "digits_val (toString n) = n"
proof (induction n rule: toString.induct)
  case (1 n)
  show ?case
  proof (cases "n < 10")
    case True
    then show ?thesis
      by (simp add: toString.simps [of n] digits_val_def digit_val_char)
  next
    case False
    with "1" have "digits_val (toString (n div 10)) = n div 10" by simp
    with False show ?thesis
      by (simp add: toString.simps [of n] digits_val_snoc digit_val_char)
  qed
qed

lemma foldl_zeros:
  "foldl (\<lambda>a c. 10 * a + digit_val c) 0 (replicate k (CHR ''0'')) = 0"
  by (induction k) (simp_all add: digit_val_def)

lemma digits_val_padStart: "digits_val (padStart k (CHR ''0'') s) = digits_val s"
  by (simp add: padStart_def digits_val_def foldl_zeros)

lemma codigoPrato_number: "digits_val (drop 5 (codigoPrato n)) = n"
  by (simp add: codigoPrato_def digits_val_padStart digits_val_toString)

lemma codigoPrato_inj: "codigoPrato a = codigoPrato b \<Longrightarrow> a = b"
  by (metis codigoPrato_number)

lemma inj_codigoPrato: "inj codigoPrato"
  by (rule injI) (rule codigoPrato_inj)

lemma createPrato_id: "id_prato (fst (Database_createPrato f d)) = novoId f"
  by (simp add: Database_createPrato_def novoId_def Let_def)

lemma createPrato_codigo:
  "codigo_prato (fst (Database_createPrato f d)) = codigoPrato (novoId f)"
  by (simp add: Database_createPrato_def novoId_def Let_def)

lemma createPrato_files:
  "pratos_json (snd (Database_createPrato f d)) = pratos_json f @ [fst (Database_createPrato f d)]"
  by (simp add: Database_createPrato_def Let_def)

lemma novoId_greater:
  assumes "p \<in> set (pratos_json f)"
  shows "id_prato p < novoId f"
proof -
  from assms have ne: "pratos_json f \<noteq> []" by auto
  from assms have "id_prato p \<le> Max (set (map id_prato (pratos_json f)))"
    by (intro Max_ge) auto
  with ne show ?thesis by (simp add: novoId_def)
qed

lemma createPrato_distinct:
  assumes "distinct (map id_prato (pratos_json f))"
  shows "distinct (map id_prato (pratos_json (snd (Database_createPrato f d))))"
proof -
  have "novoId f \<notin> set (map id_prato (pratos_json f))"
    using novoId_greater [of _ f] by fastforce
  with assms show ?thesis
    by (simp add: createPrato_files createPrato_id)
qed

lemma createPrato_derived:
  assumes "\<forall>p \<in> set (pratos_json f). codigo_prato p = codigoPrato (id_prato p)"
  shows "\<forall>p \<in> set (pratos_json (snd (Database_createPrato f d))).
           codigo_prato p = codigoPrato (id_prato p)"
  using assms by (simp add: createPrato_files createPrato_id createPrato_codigo)

lemma createPratos_distinct:
  assumes "distinct (map id_prato (pratos_json f))"
  shows "distinct (map id_prato (pratos_json (Database_createPratos f ds)))"
  using assms
proof (induction ds arbitrary: f)
  case Nil
  then show ?case by (simp add: Database_createPratos_def)
next
  case (Cons d ds)
  from Cons.IH [OF createPrato_distinct [OF Cons.prems]] show ?case
    by (simp add: Database_createPratos_def)
qed

lemma createPratos_derived:
  assumes "\<forall>p \<in> set (pratos_json f). codigo_prato p = codigoPrato (id_prato p)"
  shows "\<forall>p \<in> set (pratos_json (Database_createPratos f ds)).
           codigo_prato p = codigoPrato (id_prato p)"
  using assms
proof (induction ds arbitrary: f)
  case Nil
  then show ?case by (simp add: Database_createPratos_def)
next
  case (Cons d ds)
  from Cons.IH [OF createPrato_derived [OF Cons.prems]] show ?case
    by (simp add: Database_createPratos_def)
qed

lemma derived_codes_distinct:
  assumes "distinct (map id_prato ps)"
  shows "distinct (map (codigoPrato \<circ> id_prato) ps)"
proof -
  have "inj_on codigoPrato (set (map id_prato ps))"
    using inj_codigoPrato by (rule inj_on_subset) simp
  with assms have "distinct (map codigoPrato (map id_prato ps))"
    by (simp only: distinct_map simp_thms)
  then show ?thesis by simp
qed

lemma stored_codes_distinct:
  assumes "distinct (map id_prato ps)"
    and "\<forall>p \<in> set ps. codigo_prato p = codigoPrato (id_prato p)"
  shows "distinct (map codigo_prato ps)"
proof -
  from assms(2) have "map codigo_prato ps = map (codigoPrato \<circ> id_prato) ps"
    by (intro map_cong) simp_all
  with derived_codes_distinct [OF assms(1)] show ?thesis by (simp only:)
qed

text \<open>
  Claim C9. \<open>createPrato\<close> of the JSON-file database gives the new dish the greatest
  stored identifier plus one, or one when no dish is stored, which is greater than every
  stored identifier, and the code derived from that identifier. Hence, on files whose dish
  identifiers are distinct, after any sequence of creations the identifiers are still
  distinct and so are the codes derived from them; where the stored codes are the derived
  ones, the stored codes are distinct as well.
\<close>

theorem createPrato_ids_codes:
  "id_prato (fst (Database_createPrato f d)) =
     (if pratos_json f = [] then 1 else Max (set (map id_prato (pratos_json f))) + 1)
   \<and> (\<forall>p \<in> set (pratos_json f). id_prato p < id_prato (fst (Database_createPrato f d)))
   \<and> codigo_prato (fst (Database_createPrato f d))
       = codigoPrato (id_prato (fst (Database_createPrato f d)))
   \<and> (distinct (map id_prato (pratos_json f)) \<longrightarrow>
        distinct (map id_prato (pratos_json (Database_createPratos f ds)))
        \<and> distinct (map (codigoPrato \<circ> id_prato) (pratos_json (Database_createPratos f ds)))
        \<and> ((\<forall>p \<in> set (pratos_json f). codigo_prato p = codigoPrato (id_prato p)) \<longrightarrow>
             distinct (map codigo_prato (pratos_json (Database_createPratos f ds)))))"
proof -
  have a: "id_prato (fst (Database_createPrato f d)) =
     (if pratos_json f = [] then 1 else Max (set (map id_prato (pratos_json f))) + 1)"
    by (simp add: createPrato_id novoId_def)
  have b: "\<forall>p \<in> set (pratos_json f). id_prato p < id_prato (fst (Database_createPrato f d))"
    by (simp add: createPrato_id novoId_greater)
  have c: "codigo_prato (fst (Database_createPrato f d))
       = codigoPrato (id_prato (fst (Database_createPrato f d)))"
    by (simp add: createPrato_id createPrato_codigo)
  have e: "distinct (map id_prato (pratos_json (Database_createPratos f ds)))"
    "distinct (map (codigoPrato \<circ> id_prato) (pratos_json (Database_createPratos f ds)))"
    if "distinct (map id_prato (pratos_json f))"
    using createPratos_distinct [OF that] derived_codes_distinct by blast+
  have g: "distinct (map codigo_prato (pratos_json (Database_createPratos f ds)))"
    if "distinct (map id_prato (pratos_json f))"
      and "\<forall>p \<in> set (pratos_json f). codigo_prato p = codigoPrato (id_prato p)"
    using createPratos_distinct [OF that(1)] createPratos_derived [OF that(2)]
    by (rule stored_codes_distinct)
  from a b c e g show ?thesis by blast
qed

theorem createPrato_ids_codes_witness:
  "distinct (map id_prato (pratos_json sample_files)) \<and>
   id_prato (fst (Database_createPrato sample_files sample_novo)) = 3 \<and>
   codigo_prato (fst (Database_createPrato sample_files sample_novo)) = ''PRATO003'' \<and>
   map codigo_prato (pratos_json (Database_createPratos sample_files [sample_novo, sample_novo]))
     = [''PRATO001'', ''PRATO002'', ''PRATO003'', ''PRATO004'']"
  using createPrato_ids_codes [of sample_files sample_novo "[sample_novo, sample_novo]"]
  by code_simp

section \<open>Properties of the menu\<close>

lemma prisma_menu:
  "PrismaDatabase_getPratosDisponiveis t =
   map (\<lambda>c. \<lparr>card_categoria = nome_categoria c, card_ordem_exibicao = ordem_exibicao c,
              card_pratos = sort_key nome_prato (disponiveis_da (pratos t) c)\<rparr>)
     (categorias_do_cardapio (pratos t) (categorias t))"
proof -
  have e: "(sort_key nome_prato xs \<noteq> []) = (xs \<noteq> [])" for xs :: "prato list"
    by (metis length_sort length_0_conv)
  show ?thesis
    by (simp add: PrismaDatabase_getPratosDisponiveis_def categorias_do_cardapio_def
        disponiveis_da_def filter_map comp_def e)
qed

lemma json_menu:
  "Database_getPratosDisponiveis f =
   map (\<lambda>c. \<lparr>card_categoria = nome_categoria c, card_ordem_exibicao = ordem_exibicao c,
              card_pratos = disponiveis_da (pratos_json f) c\<rparr>)
     (categorias_do_cardapio (pratos_json f) (categorias_json f))"
  by (simp add: Database_getPratosDisponiveis_def Database_getPratos_def
      Database_getCategorias_def categorias_do_cardapio_def disponiveis_da_def filter_map
      comp_def conj_commute Let_def)

lemma categorias_do_cardapio_sorted:
  "sorted (map ordem_exibicao (categorias_do_cardapio ps cs))"
  unfolding categorias_do_cardapio_def
  by (rule sorted_filter) simp

text \<open>
  Claim C5, as amended. The public menu lists the categories in display order, those with
  no available dish left out, each with exactly its available dishes. The Prisma adapter
  gives the dishes of a category sorted by name; the JSON-file adapter gives them in
  the order they are stored.
\<close>

theorem public_menu:
  "map card_categoria (PrismaDatabase_getPratosDisponiveis t)
     = map nome_categoria (categorias_do_cardapio (pratos t) (categorias t))
   \<and> map card_ordem_exibicao (PrismaDatabase_getPratosDisponiveis t)
     = map ordem_exibicao (categorias_do_cardapio (pratos t) (categorias t))
   \<and> sorted (map card_ordem_exibicao (PrismaDatabase_getPratosDisponiveis t))
   \<and> map (mset \<circ> card_pratos) (PrismaDatabase_getPratosDisponiveis t)
     = map (mset \<circ> disponiveis_da (pratos t)) (categorias_do_cardapio (pratos t) (categorias t))
   \<and> (\<forall>item \<in> set (PrismaDatabase_getPratosDisponiveis t).
        sorted (map nome_prato (card_pratos item)))
   \<and> map card_categoria (Database_getPratosDisponiveis f)
     = map nome_categoria (categorias_do_cardapio (pratos_json f) (categorias_json f))
   \<and> map card_ordem_exibicao (Database_getPratosDisponiveis f)
     = map ordem_exibicao (categorias_do_cardapio (pratos_json f) (categorias_json f))
   \<and> sorted (map card_ordem_exibicao (Database_getPratosDisponiveis f))
   \<and> map card_pratos (Database_getPratosDisponiveis f)
     = map (disponiveis_da (pratos_json f))
         (categorias_do_cardapio (pratos_json f) (categorias_json f))"
proof -
  have p1: "map card_categoria (PrismaDatabase_getPratosDisponiveis t)
     = map nome_categoria (categorias_do_cardapio (pratos t) (categorias t))"
    by (simp add: prisma_menu comp_def)
  have p2: "map card_ordem_exibicao (PrismaDatabase_getPratosDisponiveis t)
     = map ordem_exibicao (categorias_do_cardapio (pratos t) (categorias t))"
    by (simp add: prisma_menu comp_def)
  have p3: "sorted (map card_ordem_exibicao (PrismaDatabase_getPratosDisponiveis t))"
    unfolding p2 by (rule categorias_do_cardapio_sorted)
  have p4: "map (mset \<circ> card_pratos) (PrismaDatabase_getPratosDisponiveis t)
     = map (mset \<circ> disponiveis_da (pratos t)) (categorias_do_cardapio (pratos t) (categorias t))"
    by (simp add: prisma_menu comp_def)
  have p5: "\<forall>item \<in> set (PrismaDatabase_getPratosDisponiveis t).
        sorted (map nome_prato (card_pratos item))"
    by (auto simp: prisma_menu)
  have j1: "map card_categoria (Database_getPratosDisponiveis f)
     = map nome_categoria (categorias_do_cardapio (pratos_json f) (categorias_json f))"
    by (simp add: json_menu comp_def)
  have j2: "map card_ordem_exibicao (Database_getPratosDisponiveis f)
     = map ordem_exibicao (categorias_do_cardapio (pratos_json f) (categorias_json f))"
    by (simp add: json_menu comp_def)
  have j3: "sorted (map card_ordem_exibicao (Database_getPratosDisponiveis f))"
    unfolding j2 by (rule categorias_do_cardapio_sorted)
  have j4: "map card_pratos (Database_getPratosDisponiveis f)
     = map (disponiveis_da (pratos_json f))
         (categorias_do_cardapio (pratos_json f) (categorias_json f))"
    by (simp add: json_menu comp_def)
  from p1 p2 p3 p4 p5 j1 j2 j3 j4 show ?thesis by blast
qed

theorem public_menu_witness:
  "map card_categoria (PrismaDatabase_getPratosDisponiveis sample_tables) = [''Entradas''] \<and>
   map (map nome_prato \<circ> card_pratos) (PrismaDatabase_getPratosDisponiveis sample_tables)
     = [[''Azeitonas'', ''Bruschetta'']] \<and>
   sorted [''Azeitonas'', ''Bruschetta''] \<and>
   map (map nome_prato \<circ> card_pratos) (Database_getPratosDisponiveis sample_files)
     = [[''Bruschetta'', ''Azeitonas'']]"
  using public_menu [of sample_tables sample_files]
  by code_simp

text \<open>
  Claim C5, as stated, fails on the JSON-file adapter: with Bruschetta stored before
  Azeitonas in the same category, the menu lists them in that order, which is not ascending.
\<close>

theorem json_menu_not_sorted_by_name:
  "map (map nome_prato \<circ> card_pratos) (Database_getPratosDisponiveis sample_files)
     = [[''Bruschetta'', ''Azeitonas'']] \<and>
   \<not> sorted [''Bruschetta'', ''Azeitonas'']"
  by code_simp

section \<open>Properties of the administrative controller\<close>



text \<open>
  Claim C10. In the answer that lists all dishes, \<open>categorias_ativas\<close> is the number of
  categories stored, whatever dishes they have; in both controllers.
\<close>

theorem categorias_ativas_counts_all:
  "map_option categorias_ativas (estatisticas_de (getTodosPratos t)) = Some (length (categorias t))
   \<and> map_option categorias_ativas (estatisticas_de (getTodosPratos_json f))
       = Some (length (categorias_json f))"
  by (simp add: getTodosPratos_def getTodosPratos_json_def responder_def Let_def
      PrismaDatabase_getCategorias_def Database_getCategorias_def)

theorem categorias_ativas_counts_all_witness:
  "map_option categorias_ativas (estatisticas_de (getTodosPratos sample_tables)) = Some 3 \<and>
   map (\<lambda>c. length (filter (\<lambda>p. categoria_id p = id_categoria c) (pratos sample_tables)))
     (categorias sample_tables) = [0, 2, 1] \<and>
   map (\<lambda>c. length (disponiveis_da (pratos sample_tables) c)) (categorias sample_tables)
     = [0, 2, 0]"
proof -
  have l: "length (categorias sample_tables) = 3"
    by (simp add: sample_tables_def)
  have c: "map (\<lambda>c. length (filter (\<lambda>p. categoria_id p = id_categoria c) (pratos sample_tables)))
     (categorias sample_tables) = [0, 2, 1]"
    "map (\<lambda>c. length (disponiveis_da (pratos sample_tables) c)) (categorias sample_tables)
     = [0, 2, 0]"
    by (simp_all add: sample_tables_def disponiveis_da_def)
  from categorias_ativas_counts_all [of sample_tables sample_files] l c show ?thesis
    by simp
qed

subsection \<open>Lookups\<close>



subsection \<open>Creation\<close>

lemma proximoId:
  "(case prato_findFirst_desc t of Some p \<Rightarrow> id_prato p + 1 | None \<Rightarrow> 1) = proximo_id t"
proof (cases "pratos t = []")
  case True
  then show ?thesis by (simp add: prato_findFirst_desc_def proximo_id_def)
next
  case False
  let ?m = "Max (set (map id_prato (pratos t)))"
  from False have "?m \<in> set (map id_prato (pratos t))"
    by (intro Max_in) auto
  then obtain p where "find (\<lambda>p. id_prato p = ?m) (pratos t) = Some p" "id_prato p = ?m"
    by (cases "find (\<lambda>p. id_prato p = ?m) (pratos t)") (auto simp: find_None_iff find_Some_iff)
  with False show ?thesis by (simp add: prato_findFirst_desc_def proximo_id_def)
qed








lemma tipo_item_string:
  assumes "\<not> truthy v \<or> is_string v"
  shows "(if truthy (if truthy v then v else JStr Cardapio)
          then (if truthy v then v else JStr Cardapio) else JStr Cardapio)
         = JStr (case v of JStr s \<Rightarrow> if s = [] then Cardapio else s | _ \<Rightarrow> Cardapio)"
  using assms by (cases v) (auto simp: Cardapio_def)








text \<open>
  Two more requests that the claim as stated takes for valid. The number 0 as a price is
  falsy, so the request is answered with 400 as if the price were missing, although the
  string \<open>"0"\<close> is accepted in a creation and the number 0 in an update. A name that is not
  a string has no \<open>trim\<close>, and the request is answered with 500.
\<close>

lemma criarPrato_zero_price:
  "criarPrato sample_tables (corpo_bolo\<lparr>b_preco := JNum 0\<rparr>)
     = (responder 400 (Erro DadosInvalidos), sample_tables) \<and>
   parseFloat (JNum 0) = Num 0 \<and>
   res_status (fst (criarPrato sample_tables (corpo_bolo\<lparr>b_preco := JStr ''0''\<rparr>))) = 201 \<and>
   res_status (fst (atualizarPrato sample_tables (JStr ''3'') (corpo_vazio\<lparr>b_preco := JNum 0\<rparr>)))
     = 200"
  by code_simp

lemma criarPrato_name_not_a_string:
  "criarPrato sample_tables (corpo_bolo\<lparr>b_nome_prato := JNum 123\<rparr>)
     = (responder 500 (Erro ErroInterno), sample_tables)"
  by code_simp

subsection \<open>Updates\<close>











end
